theory Spec2Isabelle
  imports Complex_Main
begin

section \<open>AdaBoost over decision stumps (hw2\_q5.py)\<close>

text \<open>
  The program works on numpy arrays of float64. The embedding idealises float64 as
  \<open>real\<close>: sums, products, \<open>exp\<close> and \<open>ln\<close> are the mathematical ones. Where numpy
  would produce a value that is not a finite number (a division by zero, the logarithm
  of a non-positive number) and only emit a RuntimeWarning, the model returns an error
  value, so that reaching such an operation is visible in the result. Python exceptions
  are error values as well. The trainer is also given in a second form, \<open>adaboost_np\<close>,
  in which these values are kept as numpy keeps them (inf, -inf, nan) and only Python
  exceptions are errors. Integer arrays (labels, predictions in {-1, 1}) are embedded
  in \<open>real\<close>. Calls of \<open>print\<close> are left out, except in \<open>loss\<close>, whose only output is
  the printed array.
\<close>

datatype error =
    ValueError      \<comment> \<open>shapes that do not broadcast, max of an empty array, negative size\<close>
  | IndexError      \<comment> \<open>column index out of range\<close>
  | TypeError       \<comment> \<open>comparison of an array with None\<close>
  | DivideByZero    \<comment> \<open>\<open>x / 0\<close>: numpy warns and yields inf\<close>
  | LogDomain       \<comment> \<open>\<open>log\<close> of zero or of a negative number: numpy warns and yields -inf or nan\<close>
  | ZeroWeightSum   \<comment> \<open>\<open>w / np.sum(w)\<close> with a zero sum: numpy warns and yields nan or inf\<close>

subsection \<open>Arrays\<close>

text \<open>
  A two-dimensional array of shape \<open>(n, d)\<close>: \<open>n\<close> is the number of rows, \<open>d\<close> is kept
  explicitly, since an array may have no rows and still have columns.
\<close>

record matrix =
  ncols :: nat
  rows :: "real list list"

definition rectangular :: "matrix \<Rightarrow> bool" where
  "rectangular X = list_all (\<lambda>r. length r = ncols X) (rows X)"

text \<open>\<open>X[:, feature]\<close>, with Python's negative indices.\<close>

definition column :: "matrix \<Rightarrow> int \<Rightarrow> error + real list" where
  "column X feature =
     (let d = int (ncols X); j = (if feature < 0 then feature + d else feature)
      in if 0 \<le> j \<and> j < d then Inr (map (\<lambda>r. r ! nat j) (rows X)) else Inl IndexError)"

text \<open>An elementwise binary operation on one-dimensional arrays, with numpy's broadcasting.\<close>

definition broadcast2 :: "('a \<Rightarrow> 'b \<Rightarrow> 'c) \<Rightarrow> 'a list \<Rightarrow> 'b list \<Rightarrow> error + 'c list" where
  "broadcast2 f xs ys =
     (if length xs = length ys then Inr (map2 f xs ys)
      else if length xs = 1 then Inr (map (f (hd xs)) ys)
      else if length ys = 1 then Inr (map (\<lambda>x. f x (hd ys)) xs)
      else Inl ValueError)"

text \<open>\<open>a @ b\<close> for one-dimensional arrays: the lengths must agree.\<close>

definition matmul :: "real list \<Rightarrow> real list \<Rightarrow> error + real" where
  "matmul a b = (if length a = length b then Inr (sum_list (map2 (*) a b)) else Inl ValueError)"

definition np_max :: "real list \<Rightarrow> error + real" where
  "np_max xs = (case xs of [] \<Rightarrow> Inl ValueError | x # r \<Rightarrow> Inr (fold max r x))"

definition np_min :: "real list \<Rightarrow> error + real" where
  "np_min xs = (case xs of [] \<Rightarrow> Inl ValueError | x # r \<Rightarrow> Inr (fold min r x))"

text \<open>
  \<open>np.arange(start, stop, step)\<close>: \<open>ceil((stop - start) / step)\<close> values \<open>start + i * step\<close>,
  in exact arithmetic. In float64 the quotient is rounded before the ceiling is taken, so
  the array of the program can have one value more (or less) than this one.
\<close>

definition arange :: "real \<Rightarrow> real \<Rightarrow> real \<Rightarrow> real list" where
  "arange start stop step =
     map (\<lambda>i. start + real i * step) [0 ..< nat \<lceil>(stop - start) / step\<rceil>]"

text \<open>A \<open>for\<close> loop over a list whose body may raise: the first error ends the loop.\<close>

fun for_each :: "('a \<Rightarrow> 's \<Rightarrow> error + 's) \<Rightarrow> 'a list \<Rightarrow> 's \<Rightarrow> error + 's" where
  "for_each body [] s = Inr s"
| "for_each body (x # xs) s =
     (case body x s of Inl e \<Rightarrow> Inl e | Inr s' \<Rightarrow> for_each body xs s')"

subsection \<open>Stump evaluator\<close>

type_synonym stump = "int \<times> real \<times> string"

definition stump_classification_result :: "int \<Rightarrow> real \<Rightarrow> string \<Rightarrow> matrix \<Rightarrow> error + real list" where
  "stump_classification_result feature threshold compare X =
     (if compare = ''>''
      then (case column X feature of Inl e \<Rightarrow> Inl e
            | Inr xs \<Rightarrow> Inr (map (\<lambda>x. sgn (x - threshold)) xs))
      else (case column X feature of Inl e \<Rightarrow> Inl e
            | Inr xs \<Rightarrow> Inr (map (\<lambda>x. sgn (threshold - x)) xs)))"

subsection \<open>Stump selector\<close>

text \<open>\<open>w.T @ np.not_equal(t, y)\<close> for the stump \<open>(feature, threshold, compare)\<close>.\<close>

definition stump_error :: "real list \<Rightarrow> matrix \<Rightarrow> real list \<Rightarrow> stump \<Rightarrow> error + real" where
  "stump_error w X y c =
     (case c of (feature, threshold, compare) \<Rightarrow>
        (case stump_classification_result feature threshold compare X of Inl e \<Rightarrow> Inl e
         | Inr t \<Rightarrow> (case broadcast2 (\<lambda>a b. a \<noteq> b) t y of Inl e \<Rightarrow> Inl e
            | Inr ne \<Rightarrow> matmul w (map of_bool ne))))"

record search =
  best_error :: real
  best_feature :: "int option"
  best_threshold :: "real option"
  best_operator :: "string option"

text \<open>The body of the innermost loop: evaluate one stump, keep it if strictly better.\<close>

definition try_stump :: "real list \<Rightarrow> matrix \<Rightarrow> real list \<Rightarrow> int \<Rightarrow> real \<Rightarrow> string \<Rightarrow> search \<Rightarrow> error + search" where
  "try_stump w X y feature threshold compare s =
     (case stump_error w X y (feature, threshold, compare) of Inl e \<Rightarrow> Inl e
      | Inr err \<Rightarrow>
          Inr (if err < best_error s
               then \<lparr>best_error = err, best_feature = Some feature,
                     best_threshold = Some threshold, best_operator = Some compare\<rparr>
               else s))"

text \<open>The thresholds swept for one feature, from its column.\<close>

definition thresholds :: "real list \<Rightarrow> error + real list" where
  "thresholds xs =
     (case np_max xs of Inl e \<Rightarrow> Inl e
      | Inr mx \<Rightarrow> (case np_min xs of Inl e \<Rightarrow> Inl e
         | Inr mn \<Rightarrow>
             (let upper_bound = mx - 0.005; lower_bound = mn + 0.005
              in Inr (arange lower_bound upper_bound 0.01))))"

definition feature_body :: "real list \<Rightarrow> matrix \<Rightarrow> real list \<Rightarrow> nat \<Rightarrow> search \<Rightarrow> error + search" where
  "feature_body w X y feature s =
     (case column X (int feature) of Inl e \<Rightarrow> Inl e
      | Inr xs \<Rightarrow> (case thresholds xs of Inl e \<Rightarrow> Inl e
         | Inr ths \<Rightarrow>
             for_each (\<lambda>threshold.
               for_each (\<lambda>compare. try_stump w X y (int feature) threshold compare)
                 [''>'', ''<''])
               ths s))"

definition best_decision_stump ::
  "real list \<Rightarrow> matrix \<Rightarrow> real list \<Rightarrow> error + (int option \<times> real option \<times> string option)" where
  "best_decision_stump w X y =
     (let n = length (rows X); d = ncols X
      in case for_each (feature_body w X y) [0 ..< d]
                \<lparr>best_error = real n, best_feature = None,
                 best_threshold = None, best_operator = None\<rparr> of
           Inl e \<Rightarrow> Inl e
         | Inr s \<Rightarrow> Inr (best_feature s, best_threshold s, best_operator s))"

text \<open>
  The selector with \<open>np.arange\<close> as a parameter \<open>ar\<close>: lines 33-53 of the program, the
  call \<open>np.arange(lower_bound, upper_bound, 0.01)\<close> standing for whatever array float64
  arithmetic makes of it. With \<open>arange\<close> for \<open>ar\<close> it is \<open>best_decision_stump\<close>.
\<close>

definition thresholds_with :: "(real \<Rightarrow> real \<Rightarrow> real \<Rightarrow> real list) \<Rightarrow> real list \<Rightarrow> error + real list" where
  "thresholds_with ar xs =
     (case np_max xs of Inl e \<Rightarrow> Inl e
      | Inr mx \<Rightarrow> (case np_min xs of Inl e \<Rightarrow> Inl e
         | Inr mn \<Rightarrow>
             (let upper_bound = mx - 0.005; lower_bound = mn + 0.005
              in Inr (ar lower_bound upper_bound 0.01))))"

definition feature_body_with ::
  "(real \<Rightarrow> real \<Rightarrow> real \<Rightarrow> real list) \<Rightarrow> real list \<Rightarrow> matrix \<Rightarrow> real list \<Rightarrow> nat \<Rightarrow> search \<Rightarrow> error + search" where
  "feature_body_with ar w X y feature s =
     (case column X (int feature) of Inl e \<Rightarrow> Inl e
      | Inr xs \<Rightarrow> (case thresholds_with ar xs of Inl e \<Rightarrow> Inl e
         | Inr ths \<Rightarrow>
             for_each (\<lambda>threshold.
               for_each (\<lambda>compare. try_stump w X y (int feature) threshold compare)
                 [''>'', ''<''])
               ths s))"

definition best_decision_stump_with ::
  "(real \<Rightarrow> real \<Rightarrow> real \<Rightarrow> real list) \<Rightarrow> real list \<Rightarrow> matrix \<Rightarrow> real list \<Rightarrow>
     error + (int option \<times> real option \<times> string option)" where
  "best_decision_stump_with ar w X y =
     (let n = length (rows X); d = ncols X
      in case for_each (feature_body_with ar w X y) [0 ..< d]
                \<lparr>best_error = real n, best_feature = None,
                 best_threshold = None, best_operator = None\<rparr> of
           Inl e \<Rightarrow> Inl e
         | Inr s \<Rightarrow> Inr (best_feature s, best_threshold s, best_operator s))"

text \<open>
  A sweep with one value more than \<open>arange\<close>. On the column \<open>[1, 1.2421875, 1.25]\<close> float64
  evaluates \<open>(1.245 - 1.005) / 0.01\<close> to \<open>24.00000000000002\<close>, so that \<open>np.arange\<close> returns
  25 thresholds, the last one \<open>1.245\<close>, where \<open>arange\<close> has 24.
\<close>

definition arange_wide :: "real \<Rightarrow> real \<Rightarrow> real \<Rightarrow> real list" where
  "arange_wide start stop step = arange start (stop + step) step"

text \<open>
  The search grid, in the order in which the three nested loops of the selector visit it:
  \<open>feature\<close> ascending over \<open>range(d)\<close>, then \<open>threshold\<close> in the order of the sweep, then
  \<open>compare\<close> over \<open>[">", "<"]\<close>. \<open>sweep\<close> is the threshold array of one feature (empty where
  the loop would raise before its first pass).
\<close>

definition sweep :: "(real \<Rightarrow> real \<Rightarrow> real \<Rightarrow> real list) \<Rightarrow> matrix \<Rightarrow> nat \<Rightarrow> real list" where
  "sweep ar X feature =
     (case column X (int feature) of Inl e \<Rightarrow> []
      | Inr xs \<Rightarrow> (case thresholds_with ar xs of Inl e \<Rightarrow> [] | Inr ths \<Rightarrow> ths))"

definition candidates :: "(real \<Rightarrow> real \<Rightarrow> real \<Rightarrow> real list) \<Rightarrow> matrix \<Rightarrow> stump list" where
  "candidates ar X =
     concat (map (\<lambda>feature.
        concat (map (\<lambda>threshold. [(int feature, threshold, ''>''), (int feature, threshold, ''<'')])
          (sweep ar X feature)))
       [0 ..< ncols X])"

text \<open>One pass of the innermost loop, for a triple of the grid.\<close>

definition try_candidate :: "real list \<Rightarrow> matrix \<Rightarrow> real list \<Rightarrow> stump \<Rightarrow> search \<Rightarrow> error + search" where
  "try_candidate w X y c s = (case c of (feature, threshold, compare) \<Rightarrow>
      try_stump w X y feature threshold compare s)"

text \<open>The search state right after the triple \<open>c\<close>, of weighted error \<open>err c\<close>, has been kept.\<close>

definition selected :: "(stump \<Rightarrow> real) \<Rightarrow> stump \<Rightarrow> search" where
  "selected err c = (case c of (feature, threshold, compare) \<Rightarrow>
     \<lparr>best_error = err c, best_feature = Some feature, best_threshold = Some threshold,
      best_operator = Some compare\<rparr>)"

subsection \<open>Boosting trainer\<close>

text \<open>
  The predictions written inline in \<open>adaboost\<close>, \<open>classify\<close> and \<open>loss\<close>:
  \<open>np.where(X[:, feature] < threshold, 1, -1)\<close> when the operator is \<open><\<close>,
  \<open>np.where(X[:, feature] > threshold, 1, -1)\<close> otherwise.
\<close>

definition inline_predictions :: "string \<Rightarrow> real \<Rightarrow> real list \<Rightarrow> real list" where
  "inline_predictions operator threshold xs =
     (if operator = ''<''
      then map (\<lambda>x. if x < threshold then 1 else - 1) xs
      else map (\<lambda>x. if x > threshold then 1 else - 1) xs)"

text \<open>\<open>0.5 * np.log((1 - em) / em)\<close>.\<close>

definition confidence :: "real \<Rightarrow> error + real" where
  "confidence em =
     (if em = 0 then Inl DivideByZero
      else if (1 - em) / em \<le> 0 then Inl LogDomain
      else Inr (0.5 * ln ((1 - em) / em)))"

text \<open>\<open>em = np.sum(w * (labels != predictions))\<close>.\<close>

definition weighted_mistakes :: "real list \<Rightarrow> real list \<Rightarrow> real list \<Rightarrow> error + real" where
  "weighted_mistakes w labels predictions =
     (case broadcast2 (\<lambda>a b. a \<noteq> b) labels predictions of Inl e \<Rightarrow> Inl e
      | Inr ne \<Rightarrow> (case broadcast2 (*) w (map of_bool ne) of Inl e \<Rightarrow> Inl e
         | Inr ps \<Rightarrow> Inr (sum_list ps)))"

text \<open>\<open>w = w * np.exp(-1 * labels * alpha[i] * predictions)\<close>, then \<open>w = w / np.sum(w)\<close>.\<close>

definition reweight :: "real list \<Rightarrow> real list \<Rightarrow> real \<Rightarrow> real list \<Rightarrow> error + real list" where
  "reweight w labels a predictions =
     (case broadcast2 (\<lambda>l p. exp (- 1 * l * a * p)) labels predictions of Inl e \<Rightarrow> Inl e
      | Inr fs \<Rightarrow> (case broadcast2 (*) w fs of Inl e \<Rightarrow> Inl e
         | Inr w1 \<Rightarrow>
             if sum_list w1 = 0 then Inl ZeroWeightSum
             else Inr (map (\<lambda>x. x / sum_list w1) w1)))"

text \<open>
  The computations of one pass of the training loop, from the current weights: the
  selected stump, its confidence weight and the new weights. When the selector returns
  \<open>(None, None, None)\<close> the operator is not \<open><\<close>, and \<open>X[:, None] > None\<close> compares the
  entries of an array with None, which raises a TypeError on an array that has an entry.
  A pass in which numpy only warns (\<open>em = 0\<close>, \<open>em = 1\<close>, a zero sum of weights) ends here
  with an error value; \<open>adaboost_round_np\<close> below goes on with the non-finite values.
\<close>

definition adaboost_round :: "matrix \<Rightarrow> real list \<Rightarrow> real list \<Rightarrow> error + (stump \<times> real \<times> real list)" where
  "adaboost_round X labels w =
     (case best_decision_stump w X labels of Inl e \<Rightarrow> Inl e
      | Inr (Some feature, Some threshold, Some operator) \<Rightarrow>
          (case column X feature of Inl e \<Rightarrow> Inl e
           | Inr xs \<Rightarrow>
               (let predictions = inline_predictions operator threshold xs
                in case weighted_mistakes w labels predictions of Inl e \<Rightarrow> Inl e
                   | Inr em \<Rightarrow> (case confidence em of Inl e \<Rightarrow> Inl e
                      | Inr a \<Rightarrow> (case reweight w labels a predictions of Inl e \<Rightarrow> Inl e
                         | Inr w' \<Rightarrow> Inr ((feature, threshold, operator), a, w')))))
      | Inr _ \<Rightarrow> Inl TypeError)"

text \<open>The variables of \<open>adaboost\<close> that live across passes.\<close>

record boost =
  st_w :: "real list"
  st_alpha :: "real list"
  st_functions :: "stump list"

text \<open>Pass \<open>i\<close>: \<open>functions.append(...)\<close>, \<open>alpha[i] = ...\<close>, \<open>w = ...\<close>.\<close>

definition adaboost_body :: "matrix \<Rightarrow> real list \<Rightarrow> nat \<Rightarrow> boost \<Rightarrow> error + boost" where
  "adaboost_body X labels i st =
     (case adaboost_round X labels (st_w st) of Inl e \<Rightarrow> Inl e
      | Inr (f, a, w') \<Rightarrow>
          Inr \<lparr>st_w = w', st_alpha = (st_alpha st)[i := a],
               st_functions = st_functions st @ [f]\<rparr>)"

definition initial_state :: "matrix \<Rightarrow> nat \<Rightarrow> boost" where
  "initial_state X num_iterations =
     (let n = length (rows X)
      in \<lparr>st_w = replicate n (1 / real n), st_alpha = replicate num_iterations 0,
          st_functions = []\<rparr>)"

text \<open>The state after the first \<open>m\<close> passes of \<open>for i in range(num_iterations)\<close>.\<close>

definition adaboost_loop :: "matrix \<Rightarrow> real list \<Rightarrow> nat \<Rightarrow> nat \<Rightarrow> error + boost" where
  "adaboost_loop X labels num_iterations m =
     for_each (adaboost_body X labels) [0 ..< m] (initial_state X num_iterations)"

definition adaboost :: "matrix \<Rightarrow> real list \<Rightarrow> int \<Rightarrow> error + (stump list \<times> real list)" where
  "adaboost X labels num_iterations =
     (if num_iterations < 0 then Inl ValueError
      else (case adaboost_loop X labels (nat num_iterations) (nat num_iterations) of
              Inl e \<Rightarrow> Inl e
            | Inr st \<Rightarrow> Inr (st_functions st, st_alpha st)))"

subsection \<open>The trainer with non-finite values\<close>

text \<open>
  A float64 value as numpy computes with it: a finite number, \<open>inf\<close>, \<open>-inf\<close> or \<open>nan\<close>.
  Finite values are exact reals (no rounding, no overflow) and zero has no sign: a
  division of a nonzero number by zero takes the sign of the numerator. The weights of
  the program are never negative, so a zero among them or in their sums is \<open>+0\<close>.
\<close>

datatype npfloat = Fin real | PInf | NInf | NaN

fun np_neg :: "npfloat \<Rightarrow> npfloat" where
  "np_neg (Fin a) = Fin (- a)"
| "np_neg PInf = NInf"
| "np_neg NInf = PInf"
| "np_neg NaN = NaN"

fun np_add :: "npfloat \<Rightarrow> npfloat \<Rightarrow> npfloat" where
  "np_add (Fin a) (Fin b) = Fin (a + b)"
| "np_add NaN _ = NaN"
| "np_add _ NaN = NaN"
| "np_add PInf NInf = NaN"
| "np_add NInf PInf = NaN"
| "np_add PInf _ = PInf"
| "np_add _ PInf = PInf"
| "np_add NInf _ = NInf"
| "np_add _ NInf = NInf"

fun np_mul :: "npfloat \<Rightarrow> npfloat \<Rightarrow> npfloat" where
  "np_mul (Fin a) (Fin b) = Fin (a * b)"
| "np_mul NaN _ = NaN"
| "np_mul _ NaN = NaN"
| "np_mul (Fin a) PInf = (if a = 0 then NaN else if 0 < a then PInf else NInf)"
| "np_mul (Fin a) NInf = (if a = 0 then NaN else if 0 < a then NInf else PInf)"
| "np_mul PInf (Fin b) = (if b = 0 then NaN else if 0 < b then PInf else NInf)"
| "np_mul NInf (Fin b) = (if b = 0 then NaN else if 0 < b then NInf else PInf)"
| "np_mul PInf PInf = PInf"
| "np_mul PInf NInf = NInf"
| "np_mul NInf PInf = NInf"
| "np_mul NInf NInf = PInf"

fun np_div :: "npfloat \<Rightarrow> npfloat \<Rightarrow> npfloat" where
  "np_div (Fin a) (Fin b) =
     (if b \<noteq> 0 then Fin (a / b) else if a = 0 then NaN else if 0 < a then PInf else NInf)"
| "np_div NaN _ = NaN"
| "np_div _ NaN = NaN"
| "np_div (Fin a) PInf = Fin 0"
| "np_div (Fin a) NInf = Fin 0"
| "np_div PInf (Fin b) = (if 0 \<le> b then PInf else NInf)"
| "np_div NInf (Fin b) = (if 0 \<le> b then NInf else PInf)"
| "np_div PInf PInf = NaN"
| "np_div PInf NInf = NaN"
| "np_div NInf PInf = NaN"
| "np_div NInf NInf = NaN"

fun np_log :: "npfloat \<Rightarrow> npfloat" where
  "np_log (Fin a) = (if 0 < a then Fin (ln a) else if a = 0 then NInf else NaN)"
| "np_log PInf = PInf"
| "np_log NInf = NaN"
| "np_log NaN = NaN"

fun np_exp :: "npfloat \<Rightarrow> npfloat" where
  "np_exp (Fin a) = Fin (exp a)"
| "np_exp PInf = PInf"
| "np_exp NInf = Fin 0"
| "np_exp NaN = NaN"

text \<open>\<open>a < b\<close>: False whenever one side is \<open>nan\<close>.\<close>

fun np_less :: "npfloat \<Rightarrow> npfloat \<Rightarrow> bool" where
  "np_less (Fin a) (Fin b) = (a < b)"
| "np_less NaN _ = False"
| "np_less _ NaN = False"
| "np_less PInf _ = False"
| "np_less _ NInf = False"
| "np_less NInf _ = True"
| "np_less _ PInf = True"

text \<open>\<open>np.sum\<close>, and \<open>a @ b\<close> of a float array with an array of booleans.\<close>

definition np_sum :: "npfloat list \<Rightarrow> npfloat" where
  "np_sum xs = foldr np_add xs (Fin 0)"

definition matmul_np :: "npfloat list \<Rightarrow> real list \<Rightarrow> error + npfloat" where
  "matmul_np a b =
     (if length a = length b then Inr (np_sum (map2 (\<lambda>x y. np_mul x (Fin y)) a b))
      else Inl ValueError)"

text \<open>
  The selector on weights that may be non-finite: the definitions of the stump selector
  above, with the arithmetic of \<open>npfloat\<close>.
\<close>

definition stump_error_np :: "npfloat list \<Rightarrow> matrix \<Rightarrow> real list \<Rightarrow> stump \<Rightarrow> error + npfloat" where
  "stump_error_np w X y c =
     (case c of (feature, threshold, compare) \<Rightarrow>
        (case stump_classification_result feature threshold compare X of Inl e \<Rightarrow> Inl e
         | Inr t \<Rightarrow> (case broadcast2 (\<lambda>a b. a \<noteq> b) t y of Inl e \<Rightarrow> Inl e
            | Inr ne \<Rightarrow> matmul_np w (map of_bool ne))))"

record search_np =
  np_best_error :: npfloat
  np_best_feature :: "int option"
  np_best_threshold :: "real option"
  np_best_operator :: "string option"

definition try_stump_np ::
  "npfloat list \<Rightarrow> matrix \<Rightarrow> real list \<Rightarrow> int \<Rightarrow> real \<Rightarrow> string \<Rightarrow> search_np \<Rightarrow> error + search_np" where
  "try_stump_np w X y feature threshold compare s =
     (case stump_error_np w X y (feature, threshold, compare) of Inl e \<Rightarrow> Inl e
      | Inr err \<Rightarrow>
          Inr (if np_less err (np_best_error s)
               then \<lparr>np_best_error = err, np_best_feature = Some feature,
                     np_best_threshold = Some threshold, np_best_operator = Some compare\<rparr>
               else s))"

definition feature_body_np ::
  "npfloat list \<Rightarrow> matrix \<Rightarrow> real list \<Rightarrow> nat \<Rightarrow> search_np \<Rightarrow> error + search_np" where
  "feature_body_np w X y feature s =
     (case column X (int feature) of Inl e \<Rightarrow> Inl e
      | Inr xs \<Rightarrow> (case thresholds xs of Inl e \<Rightarrow> Inl e
         | Inr ths \<Rightarrow>
             for_each (\<lambda>threshold.
               for_each (\<lambda>compare. try_stump_np w X y (int feature) threshold compare)
                 [''>'', ''<''])
               ths s))"

definition best_decision_stump_np ::
  "npfloat list \<Rightarrow> matrix \<Rightarrow> real list \<Rightarrow> error + (int option \<times> real option \<times> string option)" where
  "best_decision_stump_np w X y =
     (let n = length (rows X); d = ncols X
      in case for_each (feature_body_np w X y) [0 ..< d]
                \<lparr>np_best_error = Fin (real n), np_best_feature = None,
                 np_best_threshold = None, np_best_operator = None\<rparr> of
           Inl e \<Rightarrow> Inl e
         | Inr s \<Rightarrow> Inr (np_best_feature s, np_best_threshold s, np_best_operator s))"

text \<open>
  \<open>em\<close>, \<open>alpha[i]\<close> and the new weights: no operation raises, a division by zero or a
  logarithm of zero yields \<open>inf\<close>, \<open>-inf\<close> or \<open>nan\<close> (with a RuntimeWarning only).
\<close>

definition weighted_mistakes_np :: "npfloat list \<Rightarrow> real list \<Rightarrow> real list \<Rightarrow> error + npfloat" where
  "weighted_mistakes_np w labels predictions =
     (case broadcast2 (\<lambda>a b. a \<noteq> b) labels predictions of Inl e \<Rightarrow> Inl e
      | Inr ne \<Rightarrow> (case broadcast2 (\<lambda>x b. np_mul x (Fin (of_bool b))) w ne of Inl e \<Rightarrow> Inl e
         | Inr ps \<Rightarrow> Inr (np_sum ps)))"

definition confidence_np :: "npfloat \<Rightarrow> npfloat" where
  "confidence_np em = np_mul (Fin 0.5) (np_log (np_div (np_add (Fin 1) (np_neg em)) em))"

definition reweight_np :: "npfloat list \<Rightarrow> real list \<Rightarrow> npfloat \<Rightarrow> real list \<Rightarrow> error + npfloat list" where
  "reweight_np w labels a predictions =
     (case broadcast2 (\<lambda>l p. np_exp (np_mul (np_mul (Fin (- 1 * l)) a) (Fin p))) labels predictions of
        Inl e \<Rightarrow> Inl e
      | Inr fs \<Rightarrow> (case broadcast2 np_mul w fs of Inl e \<Rightarrow> Inl e
         | Inr w1 \<Rightarrow> Inr (map (\<lambda>x. np_div x (np_sum w1)) w1)))"

definition adaboost_round_np ::
  "matrix \<Rightarrow> real list \<Rightarrow> npfloat list \<Rightarrow> error + (stump \<times> npfloat \<times> npfloat list)" where
  "adaboost_round_np X labels w =
     (case best_decision_stump_np w X labels of Inl e \<Rightarrow> Inl e
      | Inr (Some feature, Some threshold, Some operator) \<Rightarrow>
          (case column X feature of Inl e \<Rightarrow> Inl e
           | Inr xs \<Rightarrow>
               (let predictions = inline_predictions operator threshold xs
                in case weighted_mistakes_np w labels predictions of Inl e \<Rightarrow> Inl e
                   | Inr em \<Rightarrow> (case reweight_np w labels (confidence_np em) predictions of
                        Inl e \<Rightarrow> Inl e
                      | Inr w' \<Rightarrow> Inr ((feature, threshold, operator), confidence_np em, w'))))
      | Inr _ \<Rightarrow> Inl TypeError)"

text \<open>
  The loop of \<open>adaboost\<close> (lines 68-90) around the computations of one pass (lines 74-87),
  which are the parameter \<open>pass\<close>: from the current weights, the stump, its alpha and the
  new weights, or an exception. \<open>uniform n\<close> stands for \<open>np.ones(n) / n\<close> and \<open>zero\<close> for the
  entries of \<open>np.zeros(num_iterations)\<close>.
\<close>

record ('w, 'a) training =
  tr_w :: 'w
  tr_alpha :: "'a list"
  tr_functions :: "stump list"

definition adaboost_body_with ::
  "(matrix \<Rightarrow> real list \<Rightarrow> 'w \<Rightarrow> error + (stump \<times> 'a \<times> 'w)) \<Rightarrow> matrix \<Rightarrow> real list \<Rightarrow> nat \<Rightarrow>
     ('w, 'a) training \<Rightarrow> error + ('w, 'a) training" where
  "adaboost_body_with pass X labels i st =
     (case pass X labels (tr_w st) of Inl e \<Rightarrow> Inl e
      | Inr (f, a, w') \<Rightarrow>
          Inr \<lparr>tr_w = w', tr_alpha = (tr_alpha st)[i := a],
               tr_functions = tr_functions st @ [f]\<rparr>)"

definition adaboost_with ::
  "(nat \<Rightarrow> 'w) \<Rightarrow> 'a \<Rightarrow> (matrix \<Rightarrow> real list \<Rightarrow> 'w \<Rightarrow> error + (stump \<times> 'a \<times> 'w)) \<Rightarrow>
     matrix \<Rightarrow> real list \<Rightarrow> int \<Rightarrow> error + (stump list \<times> 'a list)" where
  "adaboost_with uniform zero pass X labels num_iterations =
     (if num_iterations < 0 then Inl ValueError
      else (case for_each (adaboost_body_with pass X labels) [0 ..< nat num_iterations]
                   \<lparr>tr_w = uniform (length (rows X)),
                    tr_alpha = replicate (nat num_iterations) zero, tr_functions = []\<rparr> of
              Inl e \<Rightarrow> Inl e
            | Inr st \<Rightarrow> Inr (tr_functions st, tr_alpha st)))"

text \<open>\<open>adaboost\<close> as numpy runs it: a pass ends early only by a Python exception.\<close>

definition adaboost_np :: "matrix \<Rightarrow> real list \<Rightarrow> int \<Rightarrow> error + (stump list \<times> npfloat list)" where
  "adaboost_np X labels num_iterations =
     adaboost_with (\<lambda>n. replicate n (np_div (Fin 1) (Fin (real n)))) (Fin 0) adaboost_round_np
       X labels num_iterations"

text \<open>A search state of the exact selector, read as one of the selector on \<open>npfloat\<close>.\<close>

definition search_to_np :: "search \<Rightarrow> search_np" where
  "search_to_np s = \<lparr>np_best_error = Fin (best_error s), np_best_feature = best_feature s,
     np_best_threshold = best_threshold s, np_best_operator = best_operator s\<rparr>"

subsection \<open>Ensemble predictor and loss\<close>

definition vote_body :: "matrix \<Rightarrow> stump \<times> real \<Rightarrow> real list \<Rightarrow> error + real list" where
  "vote_body X fa out =
     (case fa of ((feature, threshold, operator), a) \<Rightarrow>
        (case column X feature of Inl e \<Rightarrow> Inl e
         | Inr xs \<Rightarrow>
             Inr (map2 (+) out (map (\<lambda>p. p * a) (inline_predictions operator threshold xs)))))"

definition vote :: "stump list \<Rightarrow> real list \<Rightarrow> matrix \<Rightarrow> error + real list" where
  "vote functions alpha X =
     for_each (vote_body X) (zip functions alpha) (replicate (length (rows X)) 1)"

definition classify :: "stump list \<Rightarrow> real list \<Rightarrow> matrix \<Rightarrow> error + real list" where
  "classify functions alpha X =
     (case vote functions alpha X of Inl e \<Rightarrow> Inl e
      | Inr out \<Rightarrow> Inr (map (\<lambda>v. if v > 0 then 1 else - 1) out))"

text \<open>\<open>loss\<close> returns None; the value here is the array it prints.\<close>

definition loss :: "stump list \<Rightarrow> real list \<Rightarrow> matrix \<Rightarrow> real list \<Rightarrow> error + real list" where
  "loss functions alpha X y =
     (case vote functions alpha X of Inl e \<Rightarrow> Inl e
      | Inr out \<Rightarrow> broadcast2 (\<lambda>l v. exp (- 1 * l * v)) y out)"

subsection \<open>The weighted vote, as the specification words it\<close>

text \<open>
  A stump applied to one example: \<open>+1\<close> if the comparison of the feature value with the
  threshold holds, else \<open>-1\<close>.
\<close>

definition spec_stump :: "stump \<Rightarrow> real list \<Rightarrow> real" where
  "spec_stump s x =
     (case s of (feature, threshold, direction) \<Rightarrow>
        if direction = ''>'' then (if x ! nat feature > threshold then 1 else - 1)
        else (if x ! nat feature < threshold then 1 else - 1))"

text \<open>\<open>F(x)\<close>: the sum over the (stump, alpha) pairs of alpha times the stump's vote.\<close>

definition spec_F :: "stump list \<Rightarrow> real list \<Rightarrow> real list \<Rightarrow> real" where
  "spec_F functions alpha x = (\<Sum>(s, a) \<leftarrow> zip functions alpha. a * spec_stump s x)"

text \<open>
  The prediction of a stump as the stump evaluator of the specification gives it (the sign
  of the difference), and the weighted error of a stump: the sum of the weights of the
  examples on which this prediction disagrees with the label. An example whose feature
  value equals the threshold has the prediction 0, which disagrees with both labels;
  everywhere else the prediction is the vote \<open>spec_stump\<close>.
\<close>

definition spec_evaluator :: "stump \<Rightarrow> real list \<Rightarrow> real" where
  "spec_evaluator s x =
     (case s of (feature, threshold, direction) \<Rightarrow>
        if direction = ''>'' then sgn (x ! nat feature - threshold)
        else sgn (threshold - x ! nat feature))"

definition spec_weighted_error :: "real list \<Rightarrow> matrix \<Rightarrow> real list \<Rightarrow> stump \<Rightarrow> real" where
  "spec_weighted_error w X y s =
     (\<Sum>(wi, x, yi) \<leftarrow> zip w (zip (rows X) y). if spec_evaluator s x \<noteq> yi then wi else 0)"

subsection \<open>Example data\<close>

text \<open>Two examples with one feature, \<open>0.02\<close> apart: the sweep has the single threshold \<open>0.005\<close>.\<close>

definition X_pair :: matrix where
  "X_pair = \<lparr>ncols = 1, rows = [[0], [0.02]]\<rparr>"

text \<open>
  The dataset and labels of the program's \<open>__main__\<close> block, and the weight vectors that
  the three passes of \<open>adaboost\<close> go through on it (uniform at the start).
\<close>

definition X_example :: matrix where
  "X_example = \<lparr>ncols = 2, rows =
     [[0.30, 0.15], [0.10, 0.15], [0.12, 0.17], [0.30, 0.17], [0.20, 0.18], [0.22, 0.19],
      [0.45, 0.20]]\<rparr>"

definition y_example :: "real list" where
  "y_example = [1, 1, 1, - 1, 1, - 1, - 1]"

definition example_w0 :: "real list" where "example_w0 = [1 / 7, 1 / 7, 1 / 7, 1 / 7, 1 / 7, 1 / 7, 1 / 7]"
definition example_w1 :: "real list" where "example_w1 = [1 / 2, 1 / 12, 1 / 12, 1 / 12, 1 / 12, 1 / 12, 1 / 12]"
definition example_w2 :: "real list" where "example_w2 = [3 / 11, 1 / 22, 1 / 22, 1 / 2, 1 / 22, 1 / 22, 1 / 22]"
definition example_w3 :: "real list" where "example_w3 = [3 / 20, 1 / 40, 1 / 4, 11 / 40, 1 / 4, 1 / 40, 1 / 40]"

text \<open>
  Three examples with two features: the stumps \<open>x_0 < 0.005\<close>, \<open>x_0 < 0.015\<close>,
  \<open>x_1 < 0.505\<close> and \<open>x_1 < 0.515\<close> all separate the first example from the other two.
\<close>

definition X_tie :: matrix where
  "X_tie = \<lparr>ncols = 2, rows = [[0, 0.5], [0.02, 0.52], [0.04, 0.54]]\<rparr>"

text \<open>Three examples whose last two values are closer than one step of the sweep.\<close>

definition X_close :: matrix where
  "X_close = \<lparr>ncols = 1, rows = [[1], [1.2421875], [1.25]]\<rparr>"

section \<open>Properties\<close>

subsection \<open>Loops\<close>

lemma for_each_skip: "(\<And>x. x \<in> set xs \<Longrightarrow> body x s = Inr s) \<Longrightarrow> for_each body xs s = Inr s"
  by (induction xs) auto

lemma for_each_append:
  "for_each body (xs @ ys) s =
     (case for_each body xs s of Inl e \<Rightarrow> Inl e | Inr s' \<Rightarrow> for_each body ys s')"
  by (induction xs arbitrary: s) (auto split: sum.splits)

lemma arange_empty: "stop \<le> start \<Longrightarrow> 0 < step \<Longrightarrow> arange start stop step = []"
  by (simp add: arange_def divide_le_0_iff)

subsection \<open>The predictor\<close>

text \<open>
  C1. The predictor is claimed to output the sign of \<open>F(x)\<close>. The accumulator of
  \<open>classify\<close> starts at one, not at zero: for the single stump \<open>x_0 > 0.5\<close> with weight
  \<open>0.5\<close> and the example \<open>x = [0]\<close> the vote is \<open>F(x) = -0.5\<close>, and \<open>classify\<close> answers
  \<open>+1\<close>.
\<close>

theorem classify_adds_one_to_vote:
  "classify [(0, 1 / 2, ''>'')] [1 / 2] \<lparr>ncols = 1, rows = [[0]]\<rparr> = Inr [1]
   \<and> spec_F [(0, 1 / 2, ''>'')] [1 / 2] [0] = - 1 / 2"
  by (simp add: classify_def vote_def vote_body_def column_def inline_predictions_def
      spec_F_def spec_stump_def)

text \<open>
  C3. The loss is claimed to be \<open>exp(-y[i] * F(x_i))\<close>. With the empty ensemble
  \<open>F(x) = 0\<close> and the loss of every example is \<open>1\<close>; \<open>loss\<close> prints \<open>exp(-1)\<close> for the label
  \<open>1\<close>, since its accumulator starts at one as well.
\<close>

theorem loss_adds_one_to_vote:
  "loss [] [] \<lparr>ncols = 1, rows = [[0]]\<rparr> [1] = Inr [exp (- 1)]
   \<and> exp (- 1 * 1 * spec_F [] [] [0]) = (1::real) \<and> exp (- 1) \<noteq> (1::real)"
  by (simp add: loss_def vote_def broadcast2_def spec_F_def)

subsection \<open>The stump evaluator and the inline predictions\<close>

text \<open>
  C9. For a direction \<open><\<close> or \<open>>\<close> and a threshold that no example's feature value equals,
  the stump evaluator returns the labels that the inline computation of the trainer and
  the predictor returns on the same column.
\<close>

theorem stump_evaluator_eq_inline:
  assumes "compare = ''<'' \<or> compare = ''>''"
    and "column X feature = Inr xs"
    and "threshold \<notin> set xs"
  shows "stump_classification_result feature threshold compare X =
         Inr (inline_predictions compare threshold xs)"
proof -
  have "sgn (x - threshold) = (if x > threshold then 1 else - 1)"
    and "sgn (threshold - x) = (if x < threshold then 1 else - 1)" if "x \<in> set xs" for x
    using that assms(3) by (auto simp: sgn_if)
  then show ?thesis
    using assms(1,2) by (auto simp: stump_classification_result_def inline_predictions_def)
qed

theorem stump_evaluator_eq_inline_witness:
  "stump_classification_result 0 (1 / 2) ''<'' \<lparr>ncols = 1, rows = [[0], [1]]\<rparr> =
     Inr (inline_predictions ''<'' (1 / 2) [0, 1])
   \<and> inline_predictions ''<'' (1 / 2) [0, 1] = [1, - 1]"
proof -
  have c: "column \<lparr>ncols = 1, rows = [[0], [1]]\<rparr> 0 = Inr [0, 1]"
    by (simp add: column_def)
  have t: "(1 / 2 :: real) \<notin> set [0, 1]"
    by simp
  from stump_evaluator_eq_inline [OF _ c t, of "''<''"] show ?thesis
    by (simp add: inline_predictions_def)
qed

subsection \<open>The selector on an empty grid\<close>

text \<open>
  C10. If the sweep of every feature is empty (the column's maximum minus 0.005 is at
  most its minimum plus 0.005), the selector evaluates no stump and returns
  \<open>(None, None, None)\<close>.
\<close>

theorem empty_grid_returns_none:
  assumes "\<forall>f<ncols X. \<exists>xs mx mn. column X (int f) = Inr xs \<and> np_max xs = Inr mx
              \<and> np_min xs = Inr mn \<and> mx - 0.005 \<le> mn + 0.005"
  shows "best_decision_stump w X y = Inr (None, None, None)"
proof -
  have "feature_body w X y f s = Inr s" if "f \<in> set [0 ..< ncols X]" for f s
  proof -
    from that assms obtain xs mx mn where
      h: "column X (int f) = Inr xs" "np_max xs = Inr mx" "np_min xs = Inr mn"
         "mx - 0.005 \<le> mn + 0.005"
      by auto
    have "thresholds xs = Inr []"
      using h by (simp add: thresholds_def arange_empty)
    with h(1) show ?thesis by (simp add: feature_body_def)
  qed
  then have "for_each (feature_body w X y) [0 ..< ncols X] s = Inr s" for s
    by (rule for_each_skip)
  then show ?thesis
    by (simp add: best_decision_stump_def)
qed

theorem empty_grid_returns_none_witness:
  "best_decision_stump [1 / 2, 1 / 2] \<lparr>ncols = 1, rows = [[0.30], [0.31]]\<rparr> [1, - 1] =
     Inr (None, None, None)"
proof -
  have "column \<lparr>ncols = 1, rows = [[0.30], [0.31]]\<rparr> (int f) = Inr [0.30, 0.31]
        \<and> np_max [0.30, 0.31] = Inr 0.31 \<and> np_min [0.30, 0.31 :: real] = Inr 0.30
        \<and> (0.31 :: real) - 0.005 \<le> 0.30 + 0.005"
    if "f < 1" for f
    using that by (simp add: column_def np_max_def np_min_def)
  then have "\<forall>f<ncols \<lparr>ncols = 1, rows = [[0.30], [0.31]]\<rparr>. \<exists>xs mx mn.
          column \<lparr>ncols = 1, rows = [[0.30], [0.31]]\<rparr> (int f) = Inr xs \<and> np_max xs = Inr mx
          \<and> np_min xs = Inr mn \<and> mx - 0.005 \<le> mn + 0.005"
    by (metis matrix.select_convs(1))
  from empty_grid_returns_none [OF this] show ?thesis .
qed

subsection \<open>The two-example dataset\<close>

lemma X_pair_shape: "ncols X_pair = 1" "length (rows X_pair) = 2"
  by (simp_all add: X_pair_def)

lemma X_pair_column: "column X_pair 0 = Inr [0, 0.02]"
  by (simp add: column_def X_pair_def)

lemma X_pair_select:
  "best_decision_stump [1 / 2, 1 / 2] X_pair [- 1, 1] = Inr (Some 0, Some 0.005, Some ''>'')"
  "best_decision_stump [1 / 2, 1 / 2] X_pair [1, 1] = Inr (Some 0, Some 0.005, Some ''>'')"
  by (simp_all add: best_decision_stump_def feature_body_def column_def thresholds_def np_max_def
      np_min_def arange_def try_stump_def stump_error_def stump_classification_result_def
      broadcast2_def matmul_def X_pair_def)

lemma X_pair_mistakes:
  "weighted_mistakes [1 / 2, 1 / 2] [- 1, 1] (inline_predictions ''>'' 0.005 [0, 0.02]) = Inr 0"
  "weighted_mistakes [1 / 2, 1 / 2] [1, 1] (inline_predictions ''>'' 0.005 [0, 0.02]) = Inr (1 / 2)"
  by (simp_all add: weighted_mistakes_def inline_predictions_def broadcast2_def)

lemma adaboost_round_value:
  assumes "best_decision_stump w X labels = Inr (Some feature, Some threshold, Some operator)"
    and "column X feature = Inr xs"
    and "weighted_mistakes w labels (inline_predictions operator threshold xs) = Inr em"
    and "confidence em = Inr a"
    and "reweight w labels a (inline_predictions operator threshold xs) = Inr w'"
  shows "adaboost_round X labels w = Inr ((feature, threshold, operator), a, w')"
  using assms by (simp add: adaboost_round_def)

lemma adaboost_round_confidence_error:
  assumes "best_decision_stump w X labels = Inr (Some feature, Some threshold, Some operator)"
    and "column X feature = Inr xs"
    and "weighted_mistakes w labels (inline_predictions operator threshold xs) = Inr em"
    and "confidence em = Inl e"
  shows "adaboost_round X labels w = Inl e"
  using assms by (simp add: adaboost_round_def)

lemma X_pair_initial: "st_w (initial_state X_pair T) = [1 / 2, 1 / 2]"
  by (simp add: initial_state_def X_pair_shape numeral_2_eq_2)

subsection \<open>The confidence weight\<close>

lemma reweight_errors: "reweight w labels a ps = Inl e \<Longrightarrow> e = ValueError \<or> e = ZeroWeightSum"
  by (auto simp: reweight_def broadcast2_def split: sum.splits if_splits)

lemma confidence_Inr: "0 < em \<Longrightarrow> em < 1 \<Longrightarrow> confidence em = Inr (0.5 * ln ((1 - em) / em))"
  by (simp add: confidence_def divide_le_0_iff)

lemma confidence_Inr_iff: "confidence em = Inr a \<longleftrightarrow> 0 < em \<and> em < 1 \<and> a = 0.5 * ln ((1 - em) / em)"
  by (auto simp: confidence_def divide_le_0_iff not_le split: if_splits)


text \<open>
  C2, as amended. The trainer has no special case for the weighted error \<open>em\<close> of the
  selected stump: the confidence weight is computed by the formula as it stands. When
  \<open>em = 0\<close> the division \<open>(1 - em) / em\<close> divides by zero, when \<open>em = 1\<close> the logarithm of
  zero is taken, and when \<open>0 < em < 1\<close> the weight is \<open>0.5 * ln((1 - em) / em)\<close> and neither
  error is reached in the pass.
\<close>

theorem confidence_unguarded:
  assumes "best_decision_stump w X labels = Inr (Some feature, Some threshold, Some operator)"
    and "column X feature = Inr xs"
    and "weighted_mistakes w labels (inline_predictions operator threshold xs) = Inr em"
  shows "(em = 0 \<longrightarrow> adaboost_round X labels w = Inl DivideByZero)
       \<and> (em = 1 \<longrightarrow> adaboost_round X labels w = Inl LogDomain)
       \<and> (0 < em \<and> em < 1 \<longrightarrow>
            confidence em = Inr (0.5 * ln ((1 - em) / em))
            \<and> adaboost_round X labels w \<noteq> Inl DivideByZero
            \<and> adaboost_round X labels w \<noteq> Inl LogDomain)"
proof -
  have r: "adaboost_round X labels w =
        (case confidence em of Inl e \<Rightarrow> Inl e
         | Inr a \<Rightarrow> (case reweight w labels a (inline_predictions operator threshold xs) of
              Inl e \<Rightarrow> Inl e
            | Inr w' \<Rightarrow> Inr ((feature, threshold, operator), a, w')))"
    using assms by (simp add: adaboost_round_def)
  have "adaboost_round X labels w = Inl DivideByZero" if "em = 0"
    using that by (simp add: r confidence_def)
  moreover have "adaboost_round X labels w = Inl LogDomain" if "em = 1"
    using that by (simp add: r confidence_def)
  moreover have "adaboost_round X labels w \<noteq> Inl DivideByZero"
    "adaboost_round X labels w \<noteq> Inl LogDomain" if "0 < em" "em < 1"
    using that by (auto simp: r confidence_Inr split: sum.splits dest: reweight_errors)
  ultimately show ?thesis
    by (simp add: confidence_Inr)
qed

theorem confidence_unguarded_witness:
  "adaboost_round X_pair [- 1, 1] [1 / 2, 1 / 2] = Inl DivideByZero"
  using confidence_unguarded [OF X_pair_select(1) X_pair_column X_pair_mistakes(1)] by simp

lemma X_pair_round_sep: "adaboost_round X_pair [- 1, 1] [1 / 2, 1 / 2] = Inl DivideByZero"
  by (rule adaboost_round_confidence_error [OF X_pair_select(1) X_pair_column X_pair_mistakes(1)])
    (simp add: confidence_def)

lemma initial_state_sel:
  "st_w (initial_state X T) = replicate (length (rows X)) (1 / real (length (rows X)))"
  "st_alpha (initial_state X T) = replicate T 0"
  "st_functions (initial_state X T) = []"
  by (simp_all add: initial_state_def Let_def)

lemma adaboost_loop_Suc:
  "adaboost_loop X labels T (Suc m) =
     (case adaboost_loop X labels T m of Inl e \<Rightarrow> Inl e | Inr st \<Rightarrow> adaboost_body X labels m st)"
  by (simp add: adaboost_loop_def for_each_append split: sum.splits)

lemma adaboost_loop_0: "adaboost_loop X labels T 0 = Inr (initial_state X T)"
  by (simp add: adaboost_loop_def)

text \<open>
  The claim C2 as stated fails: on the two examples with labels \<open>-1, 1\<close> the first stump
  separates the classes, \<open>em = 0\<close>, and the training run reaches the division by zero.
\<close>

theorem adaboost_divides_by_zero: "adaboost X_pair [- 1, 1] 1 = Inl DivideByZero"
proof -
  have "adaboost_loop X_pair [- 1, 1] (Suc 0) (Suc 0) = Inl DivideByZero"
    by (simp add: adaboost_loop_Suc adaboost_loop_0 adaboost_body_def X_pair_initial X_pair_round_sep)
  then show ?thesis
    by (simp add: adaboost_def)
qed

subsection \<open>The example weights\<close>

lemma sum_list_divide: "sum_list (map (\<lambda>x. x / c) xs) = sum_list xs / (c::real)"
  by (induction xs) (simp_all add: add_divide_distrib)

lemma broadcast2_mult_nonneg:
  assumes "broadcast2 (*) w fs = Inr w1" and "\<forall>x\<in>set w. 0 \<le> x" and "\<forall>x\<in>set fs. 0 \<le> (x::real)"
  shows "\<forall>x\<in>set w1. 0 \<le> x"
proof (cases "length w = length fs")
  case True
  with assms(1) have "w1 = map2 (*) w fs"
    by (simp add: broadcast2_def)
  then show ?thesis
    using assms(2,3) by (auto simp: set_zip)
next
  case False
  show ?thesis
  proof (cases "length w = 1")
    case True
    then have "0 \<le> hd w"
      using assms(2) by (cases w) auto
    moreover from True False assms(1) have "w1 = map ((*) (hd w)) fs"
      by (simp add: broadcast2_def)
    ultimately show ?thesis
      using assms(3) by auto
  next
    case w: False
    with False assms(1) have l: "length fs = 1" and w1: "w1 = map (\<lambda>x. x * hd fs) w"
      by (auto simp: broadcast2_def split: if_splits)
    from l have "0 \<le> hd fs"
      using assms(3) by (cases fs) auto
    then show ?thesis
      using assms(2) by (auto simp: w1)
  qed
qed

lemma broadcast2_exp_nonneg:
  "broadcast2 (\<lambda>l p. exp (g l p)) labels predictions = Inr fs \<Longrightarrow> \<forall>x\<in>set fs. 0 \<le> (x::real)"
  by (auto simp: broadcast2_def set_zip split: if_splits)

lemma reweight_distribution:
  assumes "reweight w labels a predictions = Inr w'" and "\<forall>x\<in>set w. 0 \<le> x"
  shows "(\<forall>x\<in>set w'. 0 \<le> x) \<and> sum_list w' = 1"
proof -
  from assms(1) obtain fs w1 where
    fs: "broadcast2 (\<lambda>l p. exp (- 1 * l * a * p)) labels predictions = Inr fs"
    and w1: "broadcast2 (*) w fs = Inr w1"
    and nz: "sum_list w1 \<noteq> 0"
    and w': "w' = map (\<lambda>x. x / sum_list w1) w1"
    by (auto simp: reweight_def split: sum.splits if_splits)
  have nn: "\<forall>x\<in>set w1. 0 \<le> x"
    using broadcast2_mult_nonneg [OF w1 assms(2) broadcast2_exp_nonneg [OF fs]] .
  then have "0 \<le> sum_list w1"
    by (simp add: sum_list_nonneg)
  with nn have "\<forall>x\<in>set w'. 0 \<le> x"
    by (simp add: w')
  moreover have "sum_list w' = 1"
    using nz by (simp add: w' sum_list_divide)
  ultimately show ?thesis by simp
qed

lemma adaboost_round_distribution:
  assumes "adaboost_round X labels w = Inr (f, a, w')" and "\<forall>x\<in>set w. 0 \<le> x"
  shows "(\<forall>x\<in>set w'. 0 \<le> x) \<and> sum_list w' = 1"
proof -
  from assms(1) obtain ps where "reweight w labels a ps = Inr w'"
    by (auto simp: adaboost_round_def Let_def split: sum.splits option.splits)
  then show ?thesis
    using assms(2) by (rule reweight_distribution)
qed

lemma adaboost_loop_weights:
  "adaboost_loop X labels T m = Inr st \<Longrightarrow>
     (\<forall>x\<in>set (st_w st). 0 \<le> x) \<and> (0 < m \<longrightarrow> sum_list (st_w st) = 1)"
proof (induction m arbitrary: st)
  case 0
  then show ?case
    by (auto simp: adaboost_loop_0 initial_state_def Let_def)
next
  case (Suc m)
  from Suc.prems obtain st0 where st0: "adaboost_loop X labels T m = Inr st0"
    and body: "adaboost_body X labels m st0 = Inr st"
    by (auto simp: adaboost_loop_Suc split: sum.splits)
  from body obtain f a w' where r: "adaboost_round X labels (st_w st0) = Inr (f, a, w')"
    and st: "st_w st = w'"
    by (auto simp: adaboost_body_def split: sum.splits)
  from Suc.IH [OF st0] have "\<forall>x\<in>set (st_w st0). 0 \<le> x" by simp
  from adaboost_round_distribution [OF r this] st show ?case by simp
qed

lemma X_pair_round_same:
  "adaboost_round X_pair [1, 1] [1 / 2, 1 / 2] = Inr ((0, 0.005, ''>''), 0, [1 / 2, 1 / 2])"
proof (rule adaboost_round_value [OF X_pair_select(2) X_pair_column X_pair_mistakes(2)])
  show "confidence (1 / 2) = Inr 0"
    by (simp add: confidence_def)
  show "reweight [1 / 2, 1 / 2] [1, 1] 0 (inline_predictions ''>'' 0.005 [0, 0.02]) = Inr [1 / 2, 1 / 2]"
    by (simp add: reweight_def broadcast2_def inline_predictions_def)
qed

lemma X_pair_loop_same:
  "adaboost_loop X_pair [1, 1] (Suc 0) (Suc 0) =
     Inr \<lparr>st_w = [1 / 2, 1 / 2], st_alpha = [0], st_functions = [(0, 0.005, ''>'')]\<rparr>"
  by (simp add: adaboost_loop_Suc adaboost_loop_0 adaboost_body_def X_pair_initial
      X_pair_round_same initial_state_sel(2,3))

lemma X_pair_adaboost_same: "adaboost X_pair [1, 1] 1 = Inr ([(0, 0.005, ''>'')], [0])"
  using X_pair_loop_same by (simp add: adaboost_def)

text \<open>
  C5. After every completed pass of the training loop (the first \<open>m\<close> passes of a run of
  \<open>num_iterations\<close>, \<open>m > 0\<close>, none of which raised), the weight vector has no negative
  entry and sums to one. A pass completes only if its \<open>em\<close> lies strictly between 0 and 1.
\<close>

theorem weights_stay_distribution:
  assumes "adaboost_loop X labels num_iterations m = Inr st" and "0 < m" and "m \<le> num_iterations"
  shows "(\<forall>x\<in>set (st_w st). 0 \<le> x) \<and> sum_list (st_w st) = 1"
  using adaboost_loop_weights [OF assms(1)] assms(2) by simp

theorem weights_stay_distribution_witness:
  "adaboost_loop X_pair [1, 1] (Suc 0) (Suc 0) =
     Inr \<lparr>st_w = [1 / 2, 1 / 2], st_alpha = [0], st_functions = [(0, 0.005, ''>'')]\<rparr>
   \<and> sum_list [1 / 2, 1 / 2 :: real] = 1 \<and> list_all (\<lambda>x. 0 \<le> x) [1 / 2, 1 / 2 :: real]"
  using weights_stay_distribution [OF X_pair_loop_same] X_pair_loop_same by simp

subsection \<open>The reweighting in closed form\<close>

lemma map2_nth: "length xs = length ys \<Longrightarrow> map2 f xs ys = map (\<lambda>i. f (xs ! i) (ys ! i)) [0 ..< length xs]"
  by (rule nth_equalityI) simp_all

text \<open>The update factor of an example, for labels and predictions in {-1, 1}.\<close>

lemma update_factor:
  assumes "l = 1 \<or> l = - 1" and "p = 1 \<or> p = - (1::real)"
  shows "exp (- 1 * l * a * p) = (if l \<noteq> p then exp a else 1 / exp a)"
  using assms by (auto simp: exp_minus inverse_eq_divide)

lemma weighted_split:
  fixes e :: real
  assumes "length ms = length w"
  shows "(\<Sum>(x, m) \<leftarrow> zip w ms. x * (if m then e else 1 / e)) =
           e * (\<Sum>(x, m) \<leftarrow> zip w ms. x * of_bool m)
           + (sum_list w - (\<Sum>(x, m) \<leftarrow> zip w ms. x * of_bool m)) / e"
  using assms
proof (induction ms w rule: list_induct2)
  case Nil
  then show ?case by simp
next
  case (Cons m ms x w)
  then show ?case
    by (cases m) (simp_all add: algebra_simps add_divide_distrib diff_divide_distrib)
qed

lemma reweight_closed_form:
  assumes len: "length labels = length w" "length ps = length w"
    and lab: "\<forall>l\<in>set labels. l = 1 \<or> l = - 1"
    and pr: "\<forall>p\<in>set ps. p = 1 \<or> p = - 1"
    and tot: "sum_list w = 1"
    and em: "weighted_mistakes w labels ps = Inr em"
    and rng: "0 < em" "em < 1"
  shows "reweight w labels (0.5 * ln ((1 - em) / em)) ps =
           Inr (map2 (\<lambda>x m. if m then x / (2 * em) else x / (2 * (1 - em))) w
                  (map2 (\<lambda>l p. l \<noteq> p) labels ps))"
proof -
  define a where "a = 0.5 * ln ((1 - em) / em)"
  define e where "e = exp a"
  define ms where "ms = map2 (\<lambda>l p. l \<noteq> p) labels ps"
  have q: "0 < (1 - em) / em"
    using rng by simp
  have e_pos: "0 < e"
    by (simp add: e_def)
  have "e * e = exp (2 * a)"
    by (simp add: e_def exp_double power2_eq_square)
  also have "\<dots> = (1 - em) / em"
    using q by (simp add: a_def)
  finally have ee: "e * e = (1 - em) / em" .
  have lms: "length ms = length w"
    using len by (simp add: ms_def)
  have fs: "broadcast2 (\<lambda>l p. exp (- 1 * l * a * p)) labels ps =
              Inr (map (\<lambda>m. if m then e else 1 / e) ms)"
  proof -
    have "exp (- 1 * l * a * p) = (if l \<noteq> p then e else 1 / e)"
      if "(l, p) \<in> set (zip labels ps)" for l p
    proof -
      from that have "l \<in> set labels" "p \<in> set ps"
        by (auto dest: set_zip_leftD set_zip_rightD)
      with lab pr have "l = 1 \<or> l = - 1" "p = 1 \<or> p = - 1"
        by blast+
      then show ?thesis
        unfolding e_def by (rule update_factor)
    qed
    then show ?thesis
      using len by (auto simp: broadcast2_def ms_def)
  qed
  have emv: "em = (\<Sum>(x, m) \<leftarrow> zip w ms. x * of_bool m)"
  proof -
    have "broadcast2 (\<lambda>a b. a \<noteq> b) labels ps = Inr ms"
      using len by (simp add: broadcast2_def ms_def)
    moreover have "broadcast2 (*) w (map of_bool ms) = Inr (map2 (\<lambda>x m. x * of_bool m) w ms)"
      using lms by (simp add: broadcast2_def zip_map2 case_prod_unfold)
    ultimately show ?thesis
      using em by (simp add: weighted_mistakes_def)
  qed
  define w1 where "w1 = map2 (\<lambda>x m. x * (if m then e else 1 / e)) w ms"
  have w1: "broadcast2 (*) w (map (\<lambda>m. if m then e else 1 / e) ms) = Inr w1"
    using lms by (simp add: broadcast2_def w1_def zip_map2 case_prod_unfold)
  have "sum_list w1 = e * em + (1 - em) / e"
    using weighted_split [OF lms, of e] by (simp add: w1_def emv tot)
  also have "(1 - em) / e = e * em"
    using ee e_pos rng by (simp add: field_simps)
  finally have Z: "sum_list w1 = 2 * em * e"
    by simp
  have Zne: "sum_list w1 \<noteq> 0"
    using Z e_pos rng by simp
  have "map (\<lambda>x. x / sum_list w1) w1 =
          map2 (\<lambda>x m. if m then x / (2 * em) else x / (2 * (1 - em))) w ms"
  proof -
    have hit: "x * e / (2 * em * e) = x / (2 * em)" for x
      using e_pos by simp
    have miss: "x * (1 / e) / (2 * em * e) = x / (2 * (1 - em))" for x
    proof -
      have "x * (1 / e) / (2 * em * e) = x / (2 * em * (e * e))"
        by simp
      also have "\<dots> = x / (2 * (1 - em))"
        using rng by (simp add: ee)
      finally show ?thesis .
    qed
    have pt: "x * (if m then e else 1 / e) / (2 * em * e) =
                (if m then x / (2 * em) else x / (2 * (1 - em)))" for x m
      by (cases m) (simp_all only: if_True if_False hit miss)
    have "map (\<lambda>x. x / sum_list w1) w1 = map (\<lambda>x. x / (2 * em * e)) w1"
      by (simp only: Z)
    also have "\<dots> = map2 (\<lambda>x m. if m then x / (2 * em) else x / (2 * (1 - em))) w ms"
      unfolding w1_def map_map o_def case_prod_unfold pt ..
    finally show ?thesis .
  qed
  with fs w1 Zne show ?thesis
    unfolding a_def [symmetric] ms_def [symmetric] reweight_def by simp
qed

subsection \<open>The example run\<close>

lemma arange_step:
  assumes "0 < step"
  shows "arange start stop step =
           (if start < stop then start # arange (start + step) stop step else [])"
proof (cases "start < stop")
  case False
  then show ?thesis
    using assms by (simp add: arange_empty)
next
  case True
  define n where "n = nat \<lceil>(stop - (start + step)) / step\<rceil>"
  have "(stop - start) / step = (stop - (start + step)) / step + 1"
    using assms by (simp add: field_simps)
  moreover have "- 1 < (stop - (start + step)) / step"
    using assms True by (simp add: field_simps)
  then have "0 \<le> \<lceil>(stop - (start + step)) / step\<rceil>"
    by linarith
  ultimately have "nat \<lceil>(stop - start) / step\<rceil> = Suc n"
    by (simp add: n_def nat_add_distrib)
  then have "arange start stop step = map (\<lambda>i. start + real i * step) [0 ..< Suc n]"
    by (simp add: arange_def)
  also have "\<dots> = start # map (\<lambda>i. start + real (Suc i) * step) [0 ..< n]"
    by (simp add: upt_conv_Cons map_Suc_upt [symmetric] del: upt_Suc)
  also have "map (\<lambda>i. start + real (Suc i) * step) [0 ..< n] = arange (start + step) stop step"
    by (simp add: arange_def n_def algebra_simps)
  finally show ?thesis
    using True by simp
qed

lemmas arange_hundredth = arange_step [where step = "1 / 100", simplified]

lemma example_columns:
  "column X_example 0 = Inr [0.30, 0.10, 0.12, 0.30, 0.20, 0.22, 0.45]"
  "column X_example 1 = Inr [0.15, 0.15, 0.17, 0.17, 0.18, 0.19, 0.20]"
  by (simp_all add: column_def X_example_def)

lemma example_thresholds_1:
  "thresholds [0.15, 0.15, 0.17, 0.17, 0.18, 0.19, 0.20] = Inr [0.155, 0.165, 0.175, 0.185]"
  by (simp add: thresholds_def np_max_def np_min_def arange_hundredth)

lemma example_thresholds_0:
  "thresholds [0.30, 0.10, 0.12, 0.30, 0.20, 0.22, 0.45] =
     Inr [0.105, 0.115, 0.125, 0.135, 0.145, 0.155, 0.165, 0.175, 0.185, 0.195,
          0.205, 0.215, 0.225, 0.235, 0.245, 0.255, 0.265, 0.275, 0.285, 0.295,
          0.305, 0.315, 0.325, 0.335, 0.345, 0.355, 0.365, 0.375, 0.385, 0.395,
          0.405, 0.415, 0.425, 0.435]"
  by (simp add: thresholds_def np_max_def np_min_def arange_hundredth)

lemmas example_eval = feature_body_def example_columns [simplified] example_thresholds_1 [simplified]
    example_thresholds_0 [simplified] try_stump_def
    stump_error_def stump_classification_result_def broadcast2_def matmul_def y_example_def

lemma example_shape: "ncols X_example = 2" "length (rows X_example) = 7"
  by (simp_all add: X_example_def)

lemma upt_0_2: "[0 ..< 2] = [0, Suc 0]"
  by (simp add: numeral_2_eq_2)

lemma example_select_1:
  "best_decision_stump example_w0 X_example y_example = Inr (Some 0, Some 0.205, Some ''<'')"
proof -
  have "feature_body example_w0 X_example y_example 0
          \<lparr>best_error = 7, best_feature = None, best_threshold = None, best_operator = None\<rparr> =
        Inr \<lparr>best_error = 1 / 7, best_feature = Some 0, best_threshold = Some 0.205,
             best_operator = Some ''<''\<rparr>"
    by (simp add: example_eval example_w0_def)
  moreover have "feature_body example_w0 X_example y_example (Suc 0)
          \<lparr>best_error = 1 / 7, best_feature = Some 0, best_threshold = Some 0.205,
           best_operator = Some ''<''\<rparr> =
        Inr \<lparr>best_error = 1 / 7, best_feature = Some 0, best_threshold = Some 0.205,
             best_operator = Some ''<''\<rparr>"
    by (simp add: example_eval example_w0_def)
  ultimately show ?thesis
    by (simp add: best_decision_stump_def example_shape upt_0_2)
qed

lemma example_select_2:
  "best_decision_stump example_w1 X_example y_example = Inr (Some 1, Some 0.185, Some ''<'')"
proof -
  have "feature_body example_w1 X_example y_example 0
          \<lparr>best_error = 7, best_feature = None, best_threshold = None, best_operator = None\<rparr> =
        Inr \<lparr>best_error = 1 / 6, best_feature = Some 0, best_threshold = Some 0.305,
             best_operator = Some ''<''\<rparr>"
    by (simp add: example_eval example_w1_def)
  moreover have "feature_body example_w1 X_example y_example (Suc 0)
          \<lparr>best_error = 1 / 6, best_feature = Some 0, best_threshold = Some 0.305,
           best_operator = Some ''<''\<rparr> =
        Inr \<lparr>best_error = 1 / 12, best_feature = Some 1, best_threshold = Some 0.185,
             best_operator = Some ''<''\<rparr>"
    by (simp add: example_eval example_w1_def)
  ultimately show ?thesis
    by (simp add: best_decision_stump_def example_shape upt_0_2)
qed

lemma example_select_3:
  "best_decision_stump example_w2 X_example y_example = Inr (Some 1, Some 0.155, Some ''<'')"
proof -
  have "feature_body example_w2 X_example y_example 0
          \<lparr>best_error = 7, best_feature = None, best_threshold = None, best_operator = None\<rparr> =
        Inr \<lparr>best_error = 3 / 11, best_feature = Some 0, best_threshold = Some 0.205,
             best_operator = Some ''<''\<rparr>"
    by (simp add: example_eval example_w2_def)
  moreover have "feature_body example_w2 X_example y_example (Suc 0)
          \<lparr>best_error = 3 / 11, best_feature = Some 0, best_threshold = Some 0.205,
           best_operator = Some ''<''\<rparr> =
        Inr \<lparr>best_error = 1 / 11, best_feature = Some 1, best_threshold = Some 0.155,
             best_operator = Some ''<''\<rparr>"
    by (simp add: example_eval example_w2_def)
  ultimately show ?thesis
    by (simp add: best_decision_stump_def example_shape upt_0_2)
qed

lemma example_predictions:
  "inline_predictions ''<'' 0.205 [0.30, 0.10, 0.12, 0.30, 0.20, 0.22, 0.45] = [- 1, 1, 1, - 1, 1, - 1, - 1]"
  "inline_predictions ''<'' 0.185 [0.15, 0.15, 0.17, 0.17, 0.18, 0.19, 0.20] = [1, 1, 1, 1, 1, - 1, - 1]"
  "inline_predictions ''<'' 0.155 [0.15, 0.15, 0.17, 0.17, 0.18, 0.19, 0.20] = [1, 1, - 1, - 1, - 1, - 1, - 1]"
  by (simp_all add: inline_predictions_def)

lemma example_mistakes:
  "weighted_mistakes example_w0 y_example [- 1, 1, 1, - 1, 1, - 1, - 1] = Inr (1 / 7)"
  "weighted_mistakes example_w1 y_example [1, 1, 1, 1, 1, - 1, - 1] = Inr (1 / 12)"
  "weighted_mistakes example_w2 y_example [1, 1, - 1, - 1, - 1, - 1, - 1] = Inr (1 / 11)"
  by (simp_all add: weighted_mistakes_def broadcast2_def y_example_def example_w0_def example_w1_def example_w2_def)

lemma example_confidence:
  "confidence (1 / 7) = Inr (ln 6 / 2)"
  "confidence (1 / 12) = Inr (ln 11 / 2)"
  "confidence (1 / 11) = Inr (ln 10 / 2)"
  by (simp_all add: confidence_def)

lemma example_reweight_1: "reweight example_w0 y_example (ln 6 / 2) [- 1, 1, 1, - 1, 1, - 1, - 1] = Inr example_w1"
proof -
  have "reweight example_w0 y_example (0.5 * ln ((1 - 1 / 7) / (1 / 7))) [- 1, 1, 1, - 1, 1, - 1, - 1] =
      Inr (map2 (\<lambda>x m. if m then x / (2 * (1 / 7)) else x / (2 * (1 - 1 / 7))) example_w0
             (map2 (\<lambda>l p. l \<noteq> p) y_example [- 1, 1, 1, - 1, 1, - 1, - 1]))"
    by (rule reweight_closed_form [OF _ _ _ _ _ example_mistakes(1)])
      (simp_all add: example_w0_def y_example_def)
  then show ?thesis
    by (simp add: example_w0_def example_w1_def y_example_def)
qed

lemma example_reweight_2: "reweight example_w1 y_example (ln 11 / 2) [1, 1, 1, 1, 1, - 1, - 1] = Inr example_w2"
proof -
  have "reweight example_w1 y_example (0.5 * ln ((1 - 1 / 12) / (1 / 12))) [1, 1, 1, 1, 1, - 1, - 1] =
      Inr (map2 (\<lambda>x m. if m then x / (2 * (1 / 12)) else x / (2 * (1 - 1 / 12))) example_w1
             (map2 (\<lambda>l p. l \<noteq> p) y_example [1, 1, 1, 1, 1, - 1, - 1]))"
    by (rule reweight_closed_form [OF _ _ _ _ _ example_mistakes(2)])
      (simp_all add: example_w1_def y_example_def)
  then show ?thesis
    by (simp add: example_w1_def example_w2_def y_example_def)
qed

lemma example_reweight_3: "reweight example_w2 y_example (ln 10 / 2) [1, 1, - 1, - 1, - 1, - 1, - 1] = Inr example_w3"
proof -
  have "reweight example_w2 y_example (0.5 * ln ((1 - 1 / 11) / (1 / 11))) [1, 1, - 1, - 1, - 1, - 1, - 1] =
      Inr (map2 (\<lambda>x m. if m then x / (2 * (1 / 11)) else x / (2 * (1 - 1 / 11))) example_w2
             (map2 (\<lambda>l p. l \<noteq> p) y_example [1, 1, - 1, - 1, - 1, - 1, - 1]))"
    by (rule reweight_closed_form [OF _ _ _ _ _ example_mistakes(3)])
      (simp_all add: example_w2_def y_example_def)
  then show ?thesis
    by (simp add: example_w2_def example_w3_def y_example_def)
qed

lemma example_round_1:
  "adaboost_round X_example y_example example_w0 = Inr ((0, 0.205, ''<''), ln 6 / 2, example_w1)"
  by (rule adaboost_round_value [OF example_select_1 example_columns(1),
        unfolded example_predictions,
        OF example_mistakes(1) example_confidence(1) example_reweight_1])

lemma example_round_2:
  "adaboost_round X_example y_example example_w1 = Inr ((1, 0.185, ''<''), ln 11 / 2, example_w2)"
  by (rule adaboost_round_value [OF example_select_2 example_columns(2),
        unfolded example_predictions,
        OF example_mistakes(2) example_confidence(2) example_reweight_2])

lemma example_round_3:
  "adaboost_round X_example y_example example_w2 = Inr ((1, 0.155, ''<''), ln 10 / 2, example_w3)"
  by (rule adaboost_round_value [OF example_select_3 example_columns(2),
        unfolded example_predictions,
        OF example_mistakes(3) example_confidence(3) example_reweight_3])

lemma example_initial: "st_w (initial_state X_example T) = example_w0"
  by (simp add: initial_state_sel example_shape example_w0_def eval_nat_numeral)

lemma example_loop:
  "adaboost_loop X_example y_example 3 3 =
     Inr \<lparr>st_w = example_w3, st_alpha = [ln 6 / 2, ln 11 / 2, ln 10 / 2],
          st_functions = [(0, 0.205, ''<''), (1, 0.185, ''<''), (1, 0.155, ''<'')]\<rparr>"
proof -
  have 1: "adaboost_loop X_example y_example 3 (Suc 0) =
     Inr \<lparr>st_w = example_w1, st_alpha = [ln 6 / 2, 0, 0], st_functions = [(0, 0.205, ''<'')]\<rparr>"
    by (simp add: adaboost_loop_Suc adaboost_loop_0 adaboost_body_def example_initial
        example_round_1 initial_state_sel(2,3) eval_nat_numeral)
  have 2: "adaboost_loop X_example y_example 3 (Suc (Suc 0)) =
     Inr \<lparr>st_w = example_w2, st_alpha = [ln 6 / 2, ln 11 / 2, 0],
          st_functions = [(0, 0.205, ''<''), (1, 0.185, ''<'')]\<rparr>"
    by (simp add: adaboost_loop_Suc [of _ _ _ "Suc 0"] 1 adaboost_body_def example_round_2)
  have "adaboost_loop X_example y_example 3 (Suc (Suc (Suc 0))) =
     Inr \<lparr>st_w = example_w3, st_alpha = [ln 6 / 2, ln 11 / 2, ln 10 / 2],
          st_functions = [(0, 0.205, ''<''), (1, 0.185, ''<''), (1, 0.155, ''<'')]\<rparr>"
    by (simp add: adaboost_loop_Suc [of _ _ _ "Suc (Suc 0)"] 2 adaboost_body_def example_round_3)
  then show ?thesis
    by (simp add: eval_nat_numeral)
qed

lemma example_adaboost:
  "adaboost X_example y_example 3 =
     Inr ([(0, 0.205, ''<''), (1, 0.185, ''<''), (1, 0.155, ''<'')],
          [ln 6 / 2, ln 11 / 2, ln 10 / 2])"
  using example_loop by (simp add: adaboost_def)

lemma exp_2_bounds: "60 / 11 < exp (2::real)" "exp (2::real) \<le> 11"
proof -
  have "(1 + 2 / real 8) ^ 8 \<le> exp (2::real)"
    by (rule exp_ge_one_plus_x_over_n_power_n) simp_all
  moreover have "(60::real) / 11 < (1 + 2 / real 8) ^ 8"
    by (simp add: power_divide)
  ultimately show "60 / 11 < exp (2::real)"
    by linarith
  have "exp (1::real) \<le> 1 + 1 + 1\<^sup>2"
    by (rule exp_bound) simp_all
  then have "exp (1::real) \<le> 3"
    by simp
  then have "exp (1::real) * exp 1 \<le> 3 * 3"
    by (intro mult_mono) simp_all
  moreover have "exp (2::real) = exp 1 * exp 1"
    by (simp add: exp_add [symmetric])
  ultimately show "exp (2::real) \<le> 11"
    by simp
qed

lemma ln_facts:
  "0 < ln (6::real)" "0 < ln (10::real)" "ln (6::real) < ln 11" "ln (10::real) < ln 11"
  "ln (6::real) + ln 10 - ln 11 < 2" "2 \<le> ln (11::real)"
proof -
  show "0 < ln (6::real)" "0 < ln (10::real)" "ln (6::real) < ln 11" "ln (10::real) < ln 11"
    by simp_all
  have "ln (6::real) + ln 10 - ln 11 = ln (60 / 11)"
    using ln_mult [of "6::real" 10] ln_div [of "60::real" 11] by simp
  also have "\<dots> < ln (exp 2)"
    using exp_2_bounds(1) by (subst ln_less_cancel_iff) simp_all
  finally show "ln (6::real) + ln 10 - ln 11 < 2"
    by simp
  have "ln (exp 2) \<le> ln (11::real)"
    using exp_2_bounds(2) by (subst ln_le_cancel_iff) simp_all
  then show "2 \<le> ln (11::real)"
    by simp
qed

lemma example_classify_signs:
  fixes a1 a2 a3 :: real
  assumes "0 < a1" "0 < a3" "a1 < a2" "a3 < a2" "a1 + a3 < a2 + 1" "1 \<le> a1 + a2 + a3"
  shows "classify [(0, 0.205, ''<''), (1, 0.185, ''<''), (1, 0.155, ''<'')] [a1, a2, a3] X_example =
           Inr [1, 1, 1, 1, 1, - 1, - 1]"
proof -
  have "vote [(0, 0.205, ''<''), (1, 0.185, ''<''), (1, 0.155, ''<'')] [a1, a2, a3] X_example =
      Inr [1 - a1 + a2 + a3, 1 + a1 + a2 + a3, 1 + a1 + a2 - a3, 1 - a1 + a2 - a3,
           1 + a1 + a2 - a3, 1 - a1 - a2 - a3, 1 - a1 - a2 - a3]"
    by (simp add: vote_def vote_body_def example_columns [simplified] example_shape
        inline_predictions_def eval_nat_numeral)
  moreover have "0 < 1 - a1 + a2 + a3" "0 < 1 + a1 + a2 + a3" "0 < 1 + a1 + a2 - a3"
    "0 < 1 - a1 + a2 - a3" "\<not> 0 < 1 - a1 - a2 - a3"
    using assms by linarith+
  ultimately show ?thesis
    by (simp only: classify_def sum.case list.map if_True if_False)
qed

lemma example_classify:
  "classify [(0, 0.205, ''<''), (1, 0.185, ''<''), (1, 0.155, ''<'')]
     [ln 6 / 2, ln 11 / 2, ln 10 / 2] X_example = Inr [1, 1, 1, 1, 1, - 1, - 1]"
  using ln_facts by (intro example_classify_signs) linarith+

text \<open>
  C8. On the example dataset three iterations return three stumps with the finite
  alphas \<open>ln 6 / 2\<close>, \<open>ln 11 / 2\<close>, \<open>ln 10 / 2\<close>. The claim that \<open>classify\<close> then has a
  strictly lower training error than the best single stump fails: \<open>classify\<close> answers
  \<open>+1\<close> on the fourth example (label \<open>-1\<close>), whose vote is \<open>F(x) < 0\<close> but \<open>1 + F(x) > 0\<close>,
  so its error under the uniform weights is \<open>1/7\<close>, the error of the first stump alone.
\<close>

theorem example_boosting_does_not_improve:
  "adaboost X_example y_example 3 =
     Inr ([(0, 0.205, ''<''), (1, 0.185, ''<''), (1, 0.155, ''<'')],
          [ln 6 / 2, ln 11 / 2, ln 10 / 2])
   \<and> classify [(0, 0.205, ''<''), (1, 0.185, ''<''), (1, 0.155, ''<'')]
        [ln 6 / 2, ln 11 / 2, ln 10 / 2] X_example = Inr [1, 1, 1, 1, 1, - 1, - 1]
   \<and> weighted_mistakes example_w0 y_example [1, 1, 1, 1, 1, - 1, - 1] = Inr (1 / 7)
   \<and> best_decision_stump example_w0 X_example y_example = Inr (Some 0, Some 0.205, Some ''<'')
   \<and> stump_classification_result 0 0.205 ''<'' X_example = Inr [- 1, 1, 1, - 1, 1, - 1, - 1]
   \<and> weighted_mistakes example_w0 y_example [- 1, 1, 1, - 1, 1, - 1, - 1] = Inr (1 / 7)"
proof -
  have "weighted_mistakes example_w0 y_example [1, 1, 1, 1, 1, - 1, - 1] = Inr (1 / 7)"
    by (simp add: weighted_mistakes_def broadcast2_def y_example_def example_w0_def)
  moreover have "stump_classification_result 0 0.205 ''<'' X_example =
      Inr [- 1, 1, 1, - 1, 1, - 1, - 1]"
    by (simp add: stump_classification_result_def example_columns [simplified])
  ultimately show ?thesis
    using example_adaboost example_classify example_select_1 example_mistakes(1) by simp
qed

subsection \<open>The update of the weights\<close>

lemma inline_predictions_length: "length (inline_predictions operator threshold xs) = length xs"
  by (simp add: inline_predictions_def)

lemma inline_predictions_range:
  "p \<in> set (inline_predictions operator threshold xs) \<Longrightarrow> p = 1 \<or> p = - 1"
  by (auto simp: inline_predictions_def split: if_splits)

lemma column_length: "column X feature = Inr xs \<Longrightarrow> length xs = length (rows X)"
  by (auto simp: column_def Let_def split: if_splits)

text \<open>
  C7, as amended. In a pass that completes, the weighted error \<open>em\<close> of the selected
  stump lies strictly between 0 and 1, the confidence weight is
  \<open>0.5 * ln((1 - em) / em)\<close>, and the new weights are the old ones, each multiplied by
  \<open>exp(-alpha * y[i] * prediction[i])\<close>, divided by their sum. When \<open>em < 1/2\<close> the factor
  of a misclassified example is above one and the factor of a correctly classified one is
  below one.
\<close>

theorem round_update_formulas:
  assumes "adaboost_round X labels w = Inr ((feature, threshold, operator), a, w')"
    and "length w = length (rows X)" and "length labels = length (rows X)"
    and "\<forall>l\<in>set labels. l = 1 \<or> l = - 1"
  shows "\<exists>xs em. column X feature = Inr xs
      \<and> weighted_mistakes w labels (inline_predictions operator threshold xs) = Inr em
      \<and> 0 < em \<and> em < 1 \<and> a = 0.5 * ln ((1 - em) / em)
      \<and> (let ps = inline_predictions operator threshold xs;
              v = map (\<lambda>i. w ! i * exp (- 1 * labels ! i * a * ps ! i)) [0 ..< length w]
          in w' = map (\<lambda>x. x / sum_list v) v
             \<and> (em < 1 / 2 \<longrightarrow>
                  (\<forall>i<length w. (labels ! i \<noteq> ps ! i \<longrightarrow> 1 < exp (- 1 * labels ! i * a * ps ! i))
                             \<and> (labels ! i = ps ! i \<longrightarrow> exp (- 1 * labels ! i * a * ps ! i) < 1))))"
proof -
  from assms(1) obtain xs em where
    xs: "column X feature = Inr xs"
    and em: "weighted_mistakes w labels (inline_predictions operator threshold xs) = Inr em"
    and a: "confidence em = Inr a"
    and rw: "reweight w labels a (inline_predictions operator threshold xs) = Inr w'"
    by (auto simp: adaboost_round_def Let_def split: sum.splits option.splits)
  define ps where "ps = inline_predictions operator threshold xs"
  define v where "v = map (\<lambda>i. w ! i * exp (- 1 * labels ! i * a * ps ! i)) [0 ..< length w]"
  have lp: "length ps = length w" "length labels = length w" "length ps = length labels"
    using column_length [OF xs] assms(2,3) by (simp_all add: ps_def inline_predictions_length)
  from a have a': "0 < em" "em < 1" "a = 0.5 * ln ((1 - em) / em)"
    by (simp_all add: confidence_Inr_iff)
  have fs: "broadcast2 (\<lambda>l p. exp (- 1 * l * a * p)) labels ps =
      Inr (map (\<lambda>i. exp (- 1 * labels ! i * a * ps ! i)) [0 ..< length w])"
    using lp by (simp add: broadcast2_def map2_nth)
  have "broadcast2 (*) w (map (\<lambda>i. exp (- 1 * labels ! i * a * ps ! i)) [0 ..< length w]) = Inr v"
    by (simp add: broadcast2_def map2_nth v_def)
  with rw fs have w': "w' = map (\<lambda>x. x / sum_list v) v"
    by (auto simp: reweight_def ps_def [symmetric] split: if_splits)
  have gain: "(labels ! i \<noteq> ps ! i \<longrightarrow> 1 < exp (- 1 * labels ! i * a * ps ! i))
            \<and> (labels ! i = ps ! i \<longrightarrow> exp (- 1 * labels ! i * a * ps ! i) < 1)"
    if "em < 1 / 2" "i < length w" for i
  proof -
    from that(1) a'(1) have "1 < (1 - em) / em"
      by (simp add: field_simps)
    then have pos: "0 < a"
      by (simp add: a')
    from that(2) lp have "labels ! i \<in> set labels" "ps ! i \<in> set ps"
      by simp_all
    then have "labels ! i = 1 \<or> labels ! i = - 1" "ps ! i = 1 \<or> ps ! i = - 1"
      using assms(4) inline_predictions_range [of "ps ! i" operator threshold xs]
      by (auto simp: ps_def)
    then show ?thesis
      using pos by auto
  qed
  show ?thesis
    using xs em a' w' gain unfolding Let_def v_def ps_def
    by (intro exI [of _ xs] exI [of _ em]) blast
qed

theorem round_update_formulas_witness:
  "adaboost_round X_example y_example example_w0 = Inr ((0, 0.205, ''<''), ln 6 / 2, example_w1)
   \<and> y_example ! 0 = 1 \<and> inline_predictions ''<'' 0.205 [0.30, 0.10, 0.12, 0.30, 0.20, 0.22, 0.45] ! 0 = - 1
   \<and> 1 < exp (- 1 * 1 * (ln 6 / 2) * (- 1 :: real))
   \<and> y_example ! 1 = 1 \<and> inline_predictions ''<'' 0.205 [0.30, 0.10, 0.12, 0.30, 0.20, 0.22, 0.45] ! 1 = 1
   \<and> exp (- 1 * 1 * (ln 6 / 2) * (1 :: real)) < 1"
proof -
  have len: "length example_w0 = length (rows X_example)" "length y_example = length (rows X_example)"
    by (simp_all add: example_w0_def y_example_def example_shape)
  have lab: "\<forall>l\<in>set y_example. l = 1 \<or> l = - 1"
    by (simp add: y_example_def)
  from round_update_formulas [OF example_round_1 len lab] obtain xs em where
    xs: "column X_example 0 = Inr xs"
    and em: "weighted_mistakes example_w0 y_example (inline_predictions ''<'' 0.205 xs) = Inr em"
    and gain: "em < 1 / 2 \<longrightarrow>
        (\<forall>i<length example_w0.
           (y_example ! i \<noteq> inline_predictions ''<'' 0.205 xs ! i \<longrightarrow>
              1 < exp (- 1 * y_example ! i * (ln 6 / 2) * inline_predictions ''<'' 0.205 xs ! i))
         \<and> (y_example ! i = inline_predictions ''<'' 0.205 xs ! i \<longrightarrow>
              exp (- 1 * y_example ! i * (ln 6 / 2) * inline_predictions ''<'' 0.205 xs ! i) < 1))"
    unfolding Let_def by blast
  from xs have xs': "xs = [0.30, 0.10, 0.12, 0.30, 0.20, 0.22, 0.45]"
    by (simp add: example_columns)
  from em have "em = 1 / 7"
    unfolding xs' example_predictions example_mistakes by simp
  with gain have g: "\<forall>i<length example_w0.
           (y_example ! i \<noteq> [- 1, 1, 1, - 1, 1, - 1, - 1] ! i \<longrightarrow>
              1 < exp (- 1 * y_example ! i * (ln 6 / 2) * [- 1, 1, 1, - 1, 1, - 1, - 1] ! i))
         \<and> (y_example ! i = [- 1, 1, 1, - 1, 1, - 1, - 1] ! i \<longrightarrow>
              exp (- 1 * y_example ! i * (ln 6 / 2) * [- 1, 1, 1, - 1, 1, - 1, - 1] ! i) < 1)"
    unfolding xs' example_predictions by simp
  have "1 < exp (- 1 * 1 * (ln 6 / 2) * (- 1 :: real))"
    using g [rule_format, of 0] by (simp add: example_w0_def y_example_def)
  moreover have "exp (- 1 * 1 * (ln 6 / 2) * (1 :: real)) < 1"
    using g [rule_format, of 1] by (simp add: example_w0_def y_example_def)
  ultimately show ?thesis
    using example_round_1 by (simp add: inline_predictions_def y_example_def)
qed

text \<open>
  The claim C7 as stated fails for \<open>em = 1/2\<close>: on the two examples with labels \<open>1, 1\<close>
  the selected stump misclassifies the first one, \<open>em = 1/2\<close>, alpha is zero and every
  factor is one, so the misclassified example gains nothing.
\<close>

theorem even_split_keeps_weights:
  "adaboost_round X_pair [1, 1] [1 / 2, 1 / 2] = Inr ((0, 0.005, ''>''), 0, [1 / 2, 1 / 2])
   \<and> inline_predictions ''>'' 0.005 [0, 0.02] = [- 1, 1]
   \<and> weighted_mistakes [1 / 2, 1 / 2] [1, 1] [- 1, 1] = Inr (1 / 2)
   \<and> \<not> 1 < exp (- 1 * 1 * 0 * (- 1 :: real))"
  using X_pair_round_same
  by (simp add: inline_predictions_def weighted_mistakes_def broadcast2_def)

subsection \<open>The returned ensemble\<close>

text \<open>The exact trainer is the loop around \<open>adaboost_round\<close>.\<close>

lemma for_each_simulation:
  assumes "\<And>x s. body' x (h s) = map_sum id h (body x s)"
  shows "for_each body' xs (h s) = map_sum id h (for_each body xs s)"
  by (induction xs arbitrary: s) (auto simp: assms split: sum.splits)

lemma adaboost_instance:
  "adaboost_with (\<lambda>n. replicate n (1 / real n)) 0 adaboost_round X labels num_iterations =
   adaboost X labels num_iterations"
proof -
  define h :: "boost \<Rightarrow> (real list, real) training" where
    "h st = \<lparr>tr_w = st_w st, tr_alpha = st_alpha st, tr_functions = st_functions st\<rparr>" for st
  have body: "adaboost_body_with adaboost_round X labels i (h s) =
      map_sum id h (adaboost_body X labels i s)" for i s
    by (simp add: adaboost_body_with_def adaboost_body_def h_def split: sum.splits)
  have init: "\<lparr>tr_w = replicate (length (rows X)) (1 / real (length (rows X))),
      tr_alpha = replicate T 0, tr_functions = []\<rparr> = h (initial_state X T)" for T
    by (simp add: h_def initial_state_def Let_def)
  show ?thesis
    unfolding adaboost_with_def adaboost_def adaboost_loop_def init
      for_each_simulation [of "adaboost_body_with adaboost_round X labels" h, OF body]
    by (simp add: h_def split: sum.splits)
qed

lemma adaboost_with_trace:
  assumes "m \<le> T"
    and "for_each (adaboost_body_with pass X labels) [0 ..< m]
           \<lparr>tr_w = w0, tr_alpha = replicate T zero, tr_functions = []\<rparr> = Inr st"
  shows "length (tr_functions st) = m \<and> length (tr_alpha st) = T \<and>
     (\<exists>ws. length ws = Suc m \<and> ws ! 0 = w0 \<and> ws ! m = tr_w st \<and>
        (\<forall>i<m. pass X labels (ws ! i) = Inr (tr_functions st ! i, tr_alpha st ! i, ws ! Suc i)))"
  using assms
proof (induction m arbitrary: st)
  case 0
  then have "st = \<lparr>tr_w = w0, tr_alpha = replicate T zero, tr_functions = []\<rparr>"
    by simp
  then show ?case
    by (auto intro!: exI [of _ "[w0]"])
next
  case (Suc m)
  from Suc.prems(2) obtain st0 where
    st0: "for_each (adaboost_body_with pass X labels) [0 ..< m]
           \<lparr>tr_w = w0, tr_alpha = replicate T zero, tr_functions = []\<rparr> = Inr st0"
    and body: "adaboost_body_with pass X labels m st0 = Inr st"
    by (auto simp: for_each_append split: sum.splits)
  from body obtain f a w' where r: "pass X labels (tr_w st0) = Inr (f, a, w')"
    and st: "st = \<lparr>tr_w = w', tr_alpha = (tr_alpha st0)[m := a],
                   tr_functions = tr_functions st0 @ [f]\<rparr>"
    by (auto simp: adaboost_body_with_def split: sum.splits)
  from Suc.prems(1) have mT: "m \<le> T" "m < T" by simp_all
  from Suc.IH [OF mT(1) st0] obtain ws where
    lf: "length (tr_functions st0) = m" and la: "length (tr_alpha st0) = T"
    and lw: "length ws = Suc m" and w0: "ws ! 0 = w0"
    and wm: "ws ! m = tr_w st0"
    and tr: "\<forall>i<m. pass X labels (ws ! i) =
                  Inr (tr_functions st0 ! i, tr_alpha st0 ! i, ws ! Suc i)"
    by blast
  let ?ws = "ws @ [w']"
  have "pass X labels (?ws ! i) =
          Inr (tr_functions st ! i, tr_alpha st ! i, ?ws ! Suc i)" if "i < Suc m" for i
  proof (cases "i < m")
    case True
    then show ?thesis
      using tr lf la lw by (simp add: st nth_append)
  next
    case False
    with that have "i = m" by simp
    then show ?thesis
      using r wm lf la lw mT by (simp add: st nth_append)
  qed
  moreover have "length ?ws = Suc (Suc m)" "?ws ! 0 = w0"
    "?ws ! Suc m = tr_w st"
    using lw w0 by (simp_all add: st nth_append)
  moreover have "length (tr_functions st) = Suc m" "length (tr_alpha st) = T"
    using lf la by (simp_all add: st)
  ultimately show ?case by (intro conjI exI [of _ ?ws]) blast+
qed

text \<open>
  C6. Whatever the computations of a pass yield (finite or not), when the training loop
  returns, the list of stumps and the array of alphas both have \<open>num_iterations\<close> entries,
  and entry \<open>i\<close> of each is the stump selected and the confidence weight computed in pass
  \<open>i\<close>, from the weights that pass \<open>i - 1\<close> left (the uniform weights for pass 0). The
  statement is about the loop with the pass as a parameter, so it holds for \<open>adaboost\<close>
  (\<open>adaboost_instance\<close>) and for \<open>adaboost_np\<close>, in which a division by zero or a
  logarithm of zero does not end the run.
\<close>

theorem adaboost_ensemble_aligned:
  assumes "adaboost_with uniform zero pass X labels num_iterations = Inr (functions, alpha)"
  shows "0 \<le> num_iterations \<and> length functions = nat num_iterations
         \<and> length alpha = nat num_iterations
         \<and> (\<exists>ws. length ws = nat num_iterations + 1
               \<and> ws ! 0 = uniform (length (rows X))
               \<and> (\<forall>i<nat num_iterations.
                     pass X labels (ws ! i) = Inr (functions ! i, alpha ! i, ws ! (i + 1))))"
proof -
  from assms have nn: "0 \<le> num_iterations"
    by (auto simp: adaboost_with_def split: if_splits)
  from assms obtain st where
    st: "for_each (adaboost_body_with pass X labels) [0 ..< nat num_iterations]
           \<lparr>tr_w = uniform (length (rows X)),
            tr_alpha = replicate (nat num_iterations) zero, tr_functions = []\<rparr> = Inr st"
    and f: "functions = tr_functions st" and a: "alpha = tr_alpha st"
    by (auto simp: adaboost_with_def split: if_splits sum.splits)
  from adaboost_with_trace [OF order_refl st] obtain ws where
    "length (tr_functions st) = nat num_iterations" "length (tr_alpha st) = nat num_iterations"
    "length ws = Suc (nat num_iterations)" "ws ! 0 = uniform (length (rows X))"
    "\<forall>i<nat num_iterations. pass X labels (ws ! i) =
                  Inr (tr_functions st ! i, tr_alpha st ! i, ws ! Suc i)"
    by blast
  then show ?thesis
    using nn unfolding f a by (intro conjI exI [of _ ws]) simp_all
qed

text \<open>
  The trainer with non-finite values agrees with the exact one on every run that the
  exact one completes.
\<close>

lemma np_sum_Fin: "np_sum (map Fin xs) = Fin (sum_list xs)"
  by (induction xs) (simp_all add: np_sum_def)

lemma matmul_np_Fin: "matmul_np (map Fin w) b = map_sum id Fin (matmul w b)"
proof -
  have "map2 (\<lambda>x y. np_mul x (Fin y)) (map Fin w) b = map Fin (map2 (*) w b)"
    by (simp add: zip_map1 case_prod_unfold)
  then show ?thesis
    by (simp only: matmul_np_def matmul_def np_sum_Fin) simp
qed

lemma stump_error_np_Fin:
  "stump_error_np (map Fin w) X y c = map_sum id Fin (stump_error w X y c)"
  by (simp add: stump_error_np_def stump_error_def matmul_np_Fin split: prod.splits sum.splits)

lemma try_stump_np_Fin:
  "try_stump_np (map Fin w) X y feature threshold compare (search_to_np s) =
     map_sum id search_to_np (try_stump w X y feature threshold compare s)"
  by (cases "stump_error w X y (feature, threshold, compare)")
    (simp_all add: try_stump_np_def try_stump_def stump_error_np_Fin search_to_np_def)

lemma feature_body_np_Fin:
  "feature_body_np (map Fin w) X y feature (search_to_np s) =
     map_sum id search_to_np (feature_body w X y feature s)"
proof -
  have inner: "for_each (\<lambda>compare. try_stump_np (map Fin w) X y (int feature) threshold compare)
        cs (search_to_np s) =
      map_sum id search_to_np
        (for_each (\<lambda>compare. try_stump w X y (int feature) threshold compare) cs s)"
    for threshold cs s
    by (rule for_each_simulation) (rule try_stump_np_Fin)
  have "for_each (\<lambda>threshold. for_each (\<lambda>compare.
            try_stump_np (map Fin w) X y (int feature) threshold compare) [''>'', ''<''])
        ths (search_to_np s) =
      map_sum id search_to_np
        (for_each (\<lambda>threshold. for_each (\<lambda>compare.
            try_stump w X y (int feature) threshold compare) [''>'', ''<'']) ths s)" for ths
    by (rule for_each_simulation) (rule inner)
  then show ?thesis
    by (simp add: feature_body_np_def feature_body_def split: sum.splits)
qed

lemma best_decision_stump_np_Fin:
  "best_decision_stump_np (map Fin w) X y = best_decision_stump w X y"
proof -
  let ?s0 = "\<lparr>best_error = real (length (rows X)), best_feature = None,
      best_threshold = None, best_operator = None\<rparr>"
  have s0: "\<lparr>np_best_error = Fin (real (length (rows X))), np_best_feature = None,
      np_best_threshold = None, np_best_operator = None\<rparr> = search_to_np ?s0"
    by (simp add: search_to_np_def)
  have "for_each (feature_body_np (map Fin w) X y) [0 ..< ncols X] (search_to_np ?s0) =
      map_sum id search_to_np (for_each (feature_body w X y) [0 ..< ncols X] ?s0)"
    by (rule for_each_simulation) (rule feature_body_np_Fin)
  then show ?thesis
    unfolding best_decision_stump_np_def best_decision_stump_def Let_def s0
    by (simp add: search_to_np_def split: sum.splits)
qed

lemma broadcast2_map1:
  "broadcast2 f (map g xs) ys = broadcast2 (\<lambda>x. f (g x)) xs ys"
  by (cases "xs = []") (simp_all add: broadcast2_def zip_map1 case_prod_unfold hd_map)

lemma broadcast2_map2:
  "broadcast2 f xs (map g ys) = broadcast2 (\<lambda>x y. f x (g y)) xs ys"
  by (cases "ys = []") (simp_all add: broadcast2_def zip_map2 case_prod_unfold hd_map)

lemma broadcast2_post:
  "broadcast2 (\<lambda>x y. h (f x y)) xs ys = map_sum id (map h) (broadcast2 f xs ys)"
  by (simp add: broadcast2_def case_prod_unfold)

lemma weighted_mistakes_np_Fin:
  "weighted_mistakes_np (map Fin w) labels predictions =
     map_sum id Fin (weighted_mistakes w labels predictions)"
proof -
  have "broadcast2 (\<lambda>x b. np_mul x (Fin (of_bool b))) (map Fin w) ne =
      map_sum id (map Fin) (broadcast2 (*) w (map of_bool ne))" for ne
    using broadcast2_post [of Fin "\<lambda>x b. x * of_bool b" w ne]
    by (simp add: broadcast2_map1 broadcast2_map2)
  then show ?thesis
    by (simp add: weighted_mistakes_np_def weighted_mistakes_def np_sum_Fin split: sum.splits)
qed

lemma confidence_np_Fin: "confidence em = Inr a \<Longrightarrow> confidence_np (Fin em) = Fin a"
  by (auto simp: confidence_def confidence_np_def split: if_splits)

lemma reweight_np_Fin:
  assumes "reweight w labels a predictions = Inr w'"
  shows "reweight_np (map Fin w) labels (Fin a) predictions = Inr (map Fin w')"
proof -
  from assms obtain fs w1 where
    fs: "broadcast2 (\<lambda>l p. exp (- 1 * l * a * p)) labels predictions = Inr fs"
    and w1: "broadcast2 (*) w fs = Inr w1"
    and nz: "sum_list w1 \<noteq> 0" and w': "w' = map (\<lambda>x. x / sum_list w1) w1"
    by (auto simp: reweight_def split: sum.splits if_splits)
  have "broadcast2 (\<lambda>l p. np_exp (np_mul (np_mul (Fin (- 1 * l)) (Fin a)) (Fin p))) labels predictions =
      map_sum id (map Fin) (broadcast2 (\<lambda>l p. exp (- 1 * l * a * p)) labels predictions)"
    using broadcast2_post [of Fin "\<lambda>l p. exp (- 1 * l * a * p)" labels predictions]
    by simp
  then have 1: "broadcast2 (\<lambda>l p. np_exp (np_mul (np_mul (Fin (- 1 * l)) (Fin a)) (Fin p)))
      labels predictions = Inr (map Fin fs)"
    by (simp add: fs [simplified])
  have "broadcast2 np_mul (map Fin w) (map Fin fs) = map_sum id (map Fin) (broadcast2 (*) w fs)"
    using broadcast2_post [of Fin "(*)" w fs]
    by (simp add: broadcast2_map1 broadcast2_map2)
  then have 2: "broadcast2 np_mul (map Fin w) (map Fin fs) = Inr (map Fin w1)"
    by (simp add: w1)
  show ?thesis
    using nz by (simp add: reweight_np_def 1 [simplified] 2 np_sum_Fin w')
qed

lemma adaboost_round_np_Fin:
  assumes "adaboost_round X labels w = Inr (f, a, w')"
  shows "adaboost_round_np X labels (map Fin w) = Inr (f, Fin a, map Fin w')"
proof -
  from assms obtain feature threshold operator xs em where
    sel: "best_decision_stump w X labels = Inr (Some feature, Some threshold, Some operator)"
    and col: "column X feature = Inr xs"
    and em: "weighted_mistakes w labels (inline_predictions operator threshold xs) = Inr em"
    and a: "confidence em = Inr a"
    and w': "reweight w labels a (inline_predictions operator threshold xs) = Inr w'"
    and f: "f = (feature, threshold, operator)"
    by (auto simp: adaboost_round_def Let_def split: sum.splits option.splits)
  show ?thesis
    by (simp add: adaboost_round_np_def best_decision_stump_np_Fin sel col
        weighted_mistakes_np_Fin em confidence_np_Fin [OF a] reweight_np_Fin [OF w'] f)
qed

lemma adaboost_body_np_Fin:
  assumes "adaboost_body X labels i st = Inr st'"
  shows "adaboost_body_with adaboost_round_np X labels i
           \<lparr>tr_w = map Fin (st_w st), tr_alpha = map Fin (st_alpha st),
            tr_functions = st_functions st\<rparr> =
         Inr \<lparr>tr_w = map Fin (st_w st'), tr_alpha = map Fin (st_alpha st'),
              tr_functions = st_functions st'\<rparr>"
proof -
  from assms obtain f a w' where r: "adaboost_round X labels (st_w st) = Inr (f, a, w')"
    and st': "st' = \<lparr>st_w = w', st_alpha = (st_alpha st)[i := a],
                    st_functions = st_functions st @ [f]\<rparr>"
    by (auto simp: adaboost_body_def split: sum.splits)
  show ?thesis
    by (simp add: adaboost_body_with_def adaboost_round_np_Fin [OF r] st' map_update)
qed

lemma adaboost_loop_np_Fin:
  assumes "adaboost_loop X labels T m = Inr st"
  shows "for_each (adaboost_body_with adaboost_round_np X labels) [0 ..< m]
           \<lparr>tr_w = map Fin (replicate (length (rows X)) (1 / real (length (rows X)))),
            tr_alpha = map Fin (replicate T 0), tr_functions = []\<rparr> =
         Inr \<lparr>tr_w = map Fin (st_w st), tr_alpha = map Fin (st_alpha st),
              tr_functions = st_functions st\<rparr>"
  using assms
proof (induction m arbitrary: st)
  case 0
  then have st: "st = initial_state X T"
    by (simp add: adaboost_loop_0)
  show ?case
    by (simp add: st initial_state_def Let_def)
next
  case (Suc m)
  from Suc.prems obtain st0 where st0: "adaboost_loop X labels T m = Inr st0"
    and body: "adaboost_body X labels m st0 = Inr st"
    by (auto simp: adaboost_loop_Suc split: sum.splits)
  show ?case
    unfolding upt_Suc_append [OF le0] for_each_append Suc.IH [OF st0]
    by (simp add: adaboost_body_np_Fin [OF body])
qed

lemma adaboost_np_refines:
  assumes "adaboost X labels num_iterations = Inr (functions, alpha)"
  shows "adaboost_np X labels num_iterations = Inr (functions, map Fin alpha)"
proof -
  from assms have nn: "\<not> num_iterations < 0"
    by (auto simp: adaboost_def split: if_splits)
  from assms obtain st where
    st: "adaboost_loop X labels (nat num_iterations) (nat num_iterations) = Inr st"
    and f: "functions = st_functions st" and a: "alpha = st_alpha st"
    by (auto simp: adaboost_def split: if_splits sum.splits)
  have "replicate n (np_div (Fin 1) (Fin (real n))) = map Fin (replicate n (1 / real n))" for n
    by (cases n) simp_all
  then show ?thesis
    using nn unfolding adaboost_np_def adaboost_with_def
    by (simp only: if_False) (simp add: adaboost_loop_np_Fin [OF st, simplified] f a)
qed

text \<open>
  On the separable pair the first pass has \<open>em = 0\<close>: alpha is \<open>inf\<close>, the new weights are
  \<open>nan\<close>, and the run of one pass returns.
\<close>

lemma X_pair_round_np:
  "adaboost_round_np X_pair [- 1, 1] [Fin (1 / 2), Fin (1 / 2)] =
     Inr ((0, 0.005, ''>''), PInf, [NaN, NaN])"
  by (simp add: adaboost_round_np_def best_decision_stump_np_def feature_body_np_def
      X_pair_shape X_pair_column thresholds_def np_max_def np_min_def arange_def
      try_stump_np_def stump_error_np_def stump_classification_result_def broadcast2_def
      matmul_np_def np_sum_def inline_predictions_def weighted_mistakes_np_def confidence_np_def
      reweight_np_def)

lemma X_pair_adaboost_np:
  "adaboost_np X_pair [- 1, 1] 1 = Inr ([(0, 0.005, ''>'')], [PInf])"
  by (simp add: adaboost_np_def adaboost_with_def adaboost_body_with_def X_pair_shape
      X_pair_round_np [simplified] numeral_2_eq_2)

lemma example_adaboost_with:
  "adaboost_with (\<lambda>n. replicate n (1 / real n)) 0 adaboost_round X_example y_example 3 =
     Inr ([(0, 0.205, ''<''), (1, 0.185, ''<''), (1, 0.155, ''<'')],
          [ln 6 / 2, ln 11 / 2, ln 10 / 2])"
  by (simp only: adaboost_instance example_adaboost)

text \<open>
  Two runs: the three passes on the data of \<open>__main__\<close>, with three different stumps and
  alphas, and the single pass on the separable pair, where \<open>em = 0\<close>, numpy warns and the
  program returns the alpha \<open>inf\<close>.
\<close>

theorem adaboost_ensemble_aligned_witness:
  "adaboost_with (\<lambda>n. replicate n (1 / real n)) 0 adaboost_round X_example y_example 3 =
     Inr ([(0, 0.205, ''<''), (1, 0.185, ''<''), (1, 0.155, ''<'')],
          [ln 6 / 2, ln 11 / 2, ln 10 / 2])
   \<and> (\<exists>ws. length ws = 4 \<and> ws ! 0 = example_w0
        \<and> adaboost_round X_example y_example (ws ! 0) = Inr ((0, 0.205, ''<''), ln 6 / 2, ws ! 1)
        \<and> adaboost_round X_example y_example (ws ! 1) = Inr ((1, 0.185, ''<''), ln 11 / 2, ws ! 2)
        \<and> adaboost_round X_example y_example (ws ! 2) = Inr ((1, 0.155, ''<''), ln 10 / 2, ws ! 3))
   \<and> adaboost_np X_pair [- 1, 1] 1 = Inr ([(0, 0.005, ''>'')], [PInf])
   \<and> (\<exists>ws. length ws = 2 \<and> ws ! 0 = [Fin (1 / 2), Fin (1 / 2)]
        \<and> adaboost_round_np X_pair [- 1, 1] (ws ! 0) = Inr ((0, 0.005, ''>''), PInf, ws ! 1))"
proof -
  from adaboost_ensemble_aligned [OF example_adaboost_with] obtain ws where
    ws: "length ws = nat 3 + 1"
      "ws ! 0 = replicate (length (rows X_example)) (1 / real (length (rows X_example)))"
    and tr: "\<forall>i<nat 3. adaboost_round X_example y_example (ws ! i) =
        Inr ([(0, 0.205, ''<''), (1, 0.185, ''<''), (1, 0.155, ''<'')] ! i,
             [ln 6 / 2, ln 11 / 2, ln 10 / 2] ! i, ws ! (i + 1))"
    by blast
  have 1: "\<exists>ws. length ws = 4 \<and> ws ! 0 = example_w0
        \<and> adaboost_round X_example y_example (ws ! 0) = Inr ((0, 0.205, ''<''), ln 6 / 2, ws ! 1)
        \<and> adaboost_round X_example y_example (ws ! 1) = Inr ((1, 0.185, ''<''), ln 11 / 2, ws ! 2)
        \<and> adaboost_round X_example y_example (ws ! 2) = Inr ((1, 0.155, ''<''), ln 10 / 2, ws ! 3)"
    using ws tr [rule_format, of 0] tr [rule_format, of 1] tr [rule_format, of 2]
    by (intro exI [of _ ws]) (simp add: example_shape example_w0_def eval_nat_numeral)
  have np: "adaboost_with (\<lambda>n. replicate n (np_div (Fin 1) (Fin (real n)))) (Fin 0)
      adaboost_round_np X_pair [- 1, 1] 1 = Inr ([(0, 0.005, ''>'')], [PInf])"
    using X_pair_adaboost_np by (simp only: adaboost_np_def)
  from adaboost_ensemble_aligned [OF np] obtain vs where
    vs: "length vs = nat 1 + 1"
      "vs ! 0 = replicate (length (rows X_pair)) (np_div (Fin 1) (Fin (real (length (rows X_pair)))))"
    and vtr: "\<forall>i<nat 1. adaboost_round_np X_pair [- 1, 1] (vs ! i) =
        Inr ([(0, 0.005, ''>'')] ! i, [PInf] ! i, vs ! (i + 1))"
    by blast
  have 2: "\<exists>ws. length ws = 2 \<and> ws ! 0 = [Fin (1 / 2), Fin (1 / 2)]
        \<and> adaboost_round_np X_pair [- 1, 1] (ws ! 0) = Inr ((0, 0.005, ''>''), PInf, ws ! 1)"
    using vs vtr [rule_format, of 0]
    by (intro exI [of _ vs]) (simp add: X_pair_shape eval_nat_numeral)
  from 1 2 show ?thesis
    by (simp only: example_adaboost_with X_pair_adaboost_np simp_thms)
qed

subsection \<open>The choice of the selector\<close>

lemma best_decision_stump_with_arange:
  "best_decision_stump_with arange w X y = best_decision_stump w X y"
proof -
  have "thresholds_with arange xs = thresholds xs" for xs
    by (simp add: thresholds_with_def thresholds_def)
  then have "feature_body_with arange w X y = feature_body w X y"
    by (intro ext) (simp add: feature_body_with_def feature_body_def split: sum.splits)
  then show ?thesis
    by (simp add: best_decision_stump_with_def best_decision_stump_def)
qed

text \<open>The three nested loops are one loop over the grid.\<close>

lemma for_each_cong:
  "(\<And>x s. x \<in> set xs \<Longrightarrow> f x s = g x s) \<Longrightarrow> for_each f xs s = for_each g xs s"
  by (induction xs arbitrary: s) (auto split: sum.splits)

lemma for_each_concat_map:
  "for_each body (concat (map g xs)) s = for_each (\<lambda>x. for_each body (g x)) xs s"
  by (induction xs arbitrary: s) (auto simp: for_each_append split: sum.splits)

lemma column_in_range:
  "feature < ncols X \<Longrightarrow> column X (int feature) = Inr (map (\<lambda>r. r ! feature) (rows X))"
  by (simp add: column_def)

lemma thresholds_with_nonempty: "xs \<noteq> [] \<Longrightarrow> \<exists>ths. thresholds_with ar xs = Inr ths"
  by (cases xs) (simp_all add: thresholds_with_def np_max_def np_min_def)

lemma feature_body_flat:
  assumes "feature < ncols X" and "rows X \<noteq> []"
  shows "feature_body_with ar w X y feature s =
     for_each (try_candidate w X y)
       (concat (map (\<lambda>threshold. [(int feature, threshold, ''>''), (int feature, threshold, ''<'')])
          (sweep ar X feature))) s"
proof -
  from assms obtain ths where
    ths: "thresholds_with ar (map (\<lambda>r. r ! feature) (rows X)) = Inr ths"
    using thresholds_with_nonempty [of "map (\<lambda>r. r ! feature) (rows X)"] by auto
  have "for_each (\<lambda>threshold. for_each (\<lambda>compare. try_stump w X y (int feature) threshold compare)
            [''>'', ''<'']) ths s =
        for_each (\<lambda>threshold. for_each (try_candidate w X y)
            [(int feature, threshold, ''>''), (int feature, threshold, ''<'')]) ths s"
    by (rule for_each_cong) (simp add: try_candidate_def split: sum.splits)
  then show ?thesis
    using assms(1) ths
    by (simp add: feature_body_with_def sweep_def column_in_range for_each_concat_map)
qed

lemma search_flat:
  assumes "rows X \<noteq> []"
  shows "for_each (feature_body_with ar w X y) [0 ..< ncols X] s =
         for_each (try_candidate w X y) (candidates ar X) s"
proof -
  have "for_each (feature_body_with ar w X y) [0 ..< ncols X] s =
        for_each (\<lambda>feature. for_each (try_candidate w X y)
           (concat (map (\<lambda>threshold. [(int feature, threshold, ''>''), (int feature, threshold, ''<'')])
              (sweep ar X feature)))) [0 ..< ncols X] s"
    by (rule for_each_cong) (simp add: feature_body_flat assms)
  then show ?thesis
    by (simp add: candidates_def for_each_concat_map)
qed

lemma try_candidate_step:
  assumes "stump_error w X y c = Inr (err c)"
  shows "try_candidate w X y c s = Inr (if err c < best_error s then selected err c else s)"
  using assms by (cases c) (simp add: try_candidate_def try_stump_def selected_def)

lemma best_error_selected: "best_error (selected err c) = err c"
  by (cases c) (simp add: selected_def)

lemma search_first_minimum:
  assumes "\<forall>c\<in>set cs. stump_error w X y c = Inr (err c)"
  shows "\<exists>s. for_each (try_candidate w X y) cs s0 = Inr s \<and>
           ((s = s0 \<and> (\<forall>c\<in>set cs. best_error s0 \<le> err c)) \<or>
            (\<exists>i<length cs. s = selected err (cs ! i) \<and> err (cs ! i) < best_error s0
                \<and> (\<forall>c\<in>set cs. err (cs ! i) \<le> err c)
                \<and> (\<forall>c\<in>set (take i cs). err (cs ! i) < err c)))"
  using assms
proof (induction cs arbitrary: s0)
  case Nil
  then show ?case by simp
next
  case (Cons c cs)
  define s1 where "s1 = (if err c < best_error s0 then selected err c else s0)"
  from Cons.prems have step: "try_candidate w X y c s0 = Inr s1"
    by (simp add: try_candidate_step s1_def)
  from Cons.prems have "\<forall>c\<in>set cs. stump_error w X y c = Inr (err c)"
    by simp
  from Cons.IH [OF this, of s1] obtain s where
    run: "for_each (try_candidate w X y) cs s1 = Inr s"
    and alt: "(s = s1 \<and> (\<forall>c\<in>set cs. best_error s1 \<le> err c)) \<or>
            (\<exists>i<length cs. s = selected err (cs ! i) \<and> err (cs ! i) < best_error s1
                \<and> (\<forall>c\<in>set cs. err (cs ! i) \<le> err c)
                \<and> (\<forall>c\<in>set (take i cs). err (cs ! i) < err c))"
    by blast
  have all: "for_each (try_candidate w X y) (c # cs) s0 = Inr s"
    by (simp add: step run)
  show ?case
  proof (cases "err c < best_error s0")
    case True
    then have s1: "s1 = selected err c" "best_error s1 = err c"
      by (simp_all add: s1_def best_error_selected)
    from alt show ?thesis
    proof
      assume "s = s1 \<and> (\<forall>c\<in>set cs. best_error s1 \<le> err c)"
      then have "0 < length (c # cs) \<and> s = selected err ((c # cs) ! 0)
          \<and> err ((c # cs) ! 0) < best_error s0
          \<and> (\<forall>c'\<in>set (c # cs). err ((c # cs) ! 0) \<le> err c')
          \<and> (\<forall>c'\<in>set (take 0 (c # cs)). err ((c # cs) ! 0) < err c')"
        using True s1 by simp
      with all show ?thesis by blast
    next
      assume "\<exists>i<length cs. s = selected err (cs ! i) \<and> err (cs ! i) < best_error s1
                \<and> (\<forall>c\<in>set cs. err (cs ! i) \<le> err c)
                \<and> (\<forall>c\<in>set (take i cs). err (cs ! i) < err c)"
      then obtain i where i: "i < length cs" "s = selected err (cs ! i)"
        "err (cs ! i) < best_error s1" "\<forall>c\<in>set cs. err (cs ! i) \<le> err c"
        "\<forall>c\<in>set (take i cs). err (cs ! i) < err c"
        by blast
      then have "Suc i < length (c # cs) \<and> s = selected err ((c # cs) ! Suc i)
          \<and> err ((c # cs) ! Suc i) < best_error s0
          \<and> (\<forall>c'\<in>set (c # cs). err ((c # cs) ! Suc i) \<le> err c')
          \<and> (\<forall>c'\<in>set (take (Suc i) (c # cs)). err ((c # cs) ! Suc i) < err c')"
        using True s1 by auto
      with all show ?thesis by blast
    qed
  next
    case False
    then have s1: "s1 = s0"
      by (simp add: s1_def)
    from alt show ?thesis
    proof
      assume "s = s1 \<and> (\<forall>c\<in>set cs. best_error s1 \<le> err c)"
      then have "s = s0 \<and> (\<forall>c'\<in>set (c # cs). best_error s0 \<le> err c')"
        using False s1 by simp
      with all show ?thesis by blast
    next
      assume "\<exists>i<length cs. s = selected err (cs ! i) \<and> err (cs ! i) < best_error s1
                \<and> (\<forall>c\<in>set cs. err (cs ! i) \<le> err c)
                \<and> (\<forall>c\<in>set (take i cs). err (cs ! i) < err c)"
      then obtain i where i: "i < length cs" "s = selected err (cs ! i)"
        "err (cs ! i) < best_error s1" "\<forall>c\<in>set cs. err (cs ! i) \<le> err c"
        "\<forall>c\<in>set (take i cs). err (cs ! i) < err c"
        by blast
      then have "Suc i < length (c # cs) \<and> s = selected err ((c # cs) ! Suc i)
          \<and> err ((c # cs) ! Suc i) < best_error s0
          \<and> (\<forall>c'\<in>set (c # cs). err ((c # cs) ! Suc i) \<le> err c')
          \<and> (\<forall>c'\<in>set (take (Suc i) (c # cs)). err ((c # cs) ! Suc i) < err c')"
        using False s1 by auto
      with all show ?thesis by blast
    qed
  qed
qed

text \<open>The error that the selector computes for a triple is its weighted error.\<close>

lemma spec_evaluator_vote:
  assumes "x ! nat feature \<noteq> threshold" and "direction = ''>'' \<or> direction = ''<''"
  shows "spec_evaluator (feature, threshold, direction) x = spec_stump (feature, threshold, direction) x"
  using assms by (auto simp: spec_evaluator_def spec_stump_def sgn_real_def)

lemma disagreement_sum:
  assumes "length w = length rs" and "length y = length rs"
  shows "sum_list (map2 (*) w (map of_bool (map2 (\<lambda>a b. a \<noteq> b) (map f rs) y))) =
         (\<Sum>(wi, x, yi) \<leftarrow> zip w (zip rs y). if f x \<noteq> yi then wi else (0::real))"
proof -
  from assms have "length w = length rs" "length rs = length y"
    by simp_all
  then show ?thesis
    by (induction w rs y rule: list_induct3) simp_all
qed

lemma disagreement_sum_bounds:
  assumes "length w = length rs" and "length y = length rs" and "\<forall>x\<in>set w. 0 \<le> (x::real)"
  shows "0 \<le> (\<Sum>(wi, x, yi) \<leftarrow> zip w (zip rs y). if f x \<noteq> yi then wi else 0)"
    and "(\<Sum>(wi, x, yi) \<leftarrow> zip w (zip rs y). if f x \<noteq> yi then wi else 0) \<le> sum_list w"
proof -
  from assms have "length w = length rs" "length rs = length y" "\<forall>x\<in>set w. 0 \<le> x"
    by simp_all
  then have "0 \<le> (\<Sum>(wi, x, yi) \<leftarrow> zip w (zip rs y). if f x \<noteq> yi then wi else 0)
      \<and> (\<Sum>(wi, x, yi) \<leftarrow> zip w (zip rs y). if f x \<noteq> yi then wi else 0) \<le> sum_list w"
    by (induction w rs y rule: list_induct3) (auto simp: add_mono add_increasing)
  then show "0 \<le> (\<Sum>(wi, x, yi) \<leftarrow> zip w (zip rs y). if f x \<noteq> yi then wi else 0)"
    and "(\<Sum>(wi, x, yi) \<leftarrow> zip w (zip rs y). if f x \<noteq> yi then wi else 0) \<le> sum_list w"
    by simp_all
qed

lemma stump_error_spec:
  assumes "c \<in> set (candidates ar X)"
    and "length w = length (rows X)" and "length y = length (rows X)"
  shows "stump_error w X y c = Inr (spec_weighted_error w X y c)"
proof -
  from assms(1) obtain feature threshold compare where
    c: "c = (int feature, threshold, compare)" and f: "feature < ncols X"
    by (auto simp: candidates_def)
  define g where "g = spec_evaluator c"
  have t: "stump_classification_result (int feature) threshold compare X = Inr (map g (rows X))"
    using f by (simp add: stump_classification_result_def column_in_range g_def c
        spec_evaluator_def)
  have ne: "broadcast2 (\<lambda>a b. a \<noteq> b) (map g (rows X)) y = Inr (map2 (\<lambda>a b. a \<noteq> b) (map g (rows X)) y)"
    using assms(3) by (simp add: broadcast2_def)
  have "stump_error w X y c =
      Inr (sum_list (map2 (*) w (map of_bool (map2 (\<lambda>a b. a \<noteq> b) (map g (rows X)) y))))"
    using assms(2,3) by (simp add: stump_error_def c t ne matmul_def)
  also have "\<dots> = Inr (spec_weighted_error w X y c)"
    using disagreement_sum [OF assms(2,3), of g]
    by (simp add: spec_weighted_error_def g_def)
  finally show ?thesis .
qed

lemma spec_weighted_error_bounds:
  assumes "length w = length (rows X)" and "length y = length (rows X)"
    and "\<forall>x\<in>set w. 0 \<le> x"
  shows "0 \<le> spec_weighted_error w X y c" and "spec_weighted_error w X y c \<le> sum_list w"
  unfolding spec_weighted_error_def
  using disagreement_sum_bounds [OF assms, of "spec_evaluator c"] by simp_all

lemma thresholds_single: "thresholds_with arange [x] = Inr []"
  by (simp add: thresholds_with_def np_max_def np_min_def arange_empty)

lemma candidates_need_two_rows:
  assumes "candidates arange X \<noteq> []"
  shows "2 \<le> length (rows X)"
proof (rule ccontr)
  assume "\<not> 2 \<le> length (rows X)"
  then consider "rows X = []" | r where "rows X = [r]"
    by (cases "rows X"; cases "tl (rows X)") auto
  then have "sweep arange X feature = []" for feature
  proof cases
    case 1
    then show ?thesis
      by (simp add: sweep_def column_def thresholds_with_def np_max_def Let_def)
  next
    case 2
    then show ?thesis
      by (simp add: sweep_def column_def thresholds_single Let_def)
  qed
  then have "candidates arange X = []"
    by (simp add: candidates_def)
  with assms show False by simp
qed

text \<open>
  C4. For weights that are nonnegative and sum to one, on a dataset of at least two
  examples whose search grid is not empty (labels and weights as long as the dataset), and
  whatever array \<open>np.arange\<close> returns for the sweep of a feature, the selector returns the
  triple at some position \<open>i\<close> of the grid: its weighted error, the weight of the examples
  it misclassifies, is at most that of every triple of the grid, and strictly below that
  of every triple enumerated before it. So among the triples of minimum error it is the
  first in enumeration order: lowest feature index, then earliest threshold of the sweep,
  then \<open>">"\<close> before \<open>"<"\<close>. (On an empty grid the selector returns no stump; with the exact
  \<open>arange\<close> a grid that is not empty has two examples, \<open>candidates_need_two_rows\<close>.)
\<close>

theorem best_stump_first_minimum:
  assumes "length w = length (rows X)" and "length y = length (rows X)"
    and "\<forall>x\<in>set w. 0 \<le> x" and "sum_list w = 1"
    and "2 \<le> length (rows X)" and "candidates ar X \<noteq> []"
  shows "\<exists>i<length (candidates ar X).
           best_decision_stump_with ar w X y =
             Inr (case candidates ar X ! i of (feature, threshold, compare) \<Rightarrow>
                    (Some feature, Some threshold, Some compare))
         \<and> (\<forall>c\<in>set (candidates ar X).
               spec_weighted_error w X y (candidates ar X ! i) \<le> spec_weighted_error w X y c)
         \<and> (\<forall>c\<in>set (take i (candidates ar X)).
               spec_weighted_error w X y (candidates ar X ! i) < spec_weighted_error w X y c)"
proof -
  let ?err = "spec_weighted_error w X y"
  let ?cs = "candidates ar X"
  have err: "\<forall>c\<in>set ?cs. stump_error w X y c = Inr (?err c)"
    using stump_error_spec [OF _ assms(1,2)] by blast
  from assms(5) have ne: "rows X \<noteq> []"
    by auto
  define s0 where "s0 = \<lparr>best_error = real (length (rows X)), best_feature = None,
      best_threshold = None, best_operator = None\<rparr>"
  have low: "?err c < best_error s0" for c
    using spec_weighted_error_bounds(2) [OF assms(1,2,3), of c] assms(4,5) by (simp add: s0_def)
  from search_first_minimum [OF err, of s0] obtain s where
    run: "for_each (try_candidate w X y) ?cs s0 = Inr s"
    and alt: "(s = s0 \<and> (\<forall>c\<in>set ?cs. best_error s0 \<le> ?err c)) \<or>
            (\<exists>i<length ?cs. s = selected ?err (?cs ! i)
                \<and> ?err (?cs ! i) < best_error s0
                \<and> (\<forall>c\<in>set ?cs. ?err (?cs ! i) \<le> ?err c)
                \<and> (\<forall>c\<in>set (take i ?cs). ?err (?cs ! i) < ?err c))"
    by blast
  from assms(6) obtain c0 where c0: "c0 \<in> set ?cs"
    by (cases ?cs) auto
  from low [of c0] have "\<not> best_error s0 \<le> ?err c0"
    by simp
  with c0 have "\<not> (\<forall>c\<in>set ?cs. best_error s0 \<le> ?err c)"
    by blast
  with alt obtain i where i: "i < length ?cs" "s = selected ?err (?cs ! i)"
    "\<forall>c\<in>set ?cs. ?err (?cs ! i) \<le> ?err c"
    "\<forall>c\<in>set (take i ?cs). ?err (?cs ! i) < ?err c"
    by blast
  have "best_decision_stump_with ar w X y = Inr (best_feature s, best_threshold s, best_operator s)"
    using run by (simp add: best_decision_stump_with_def search_flat [OF ne] s0_def)
  then have "best_decision_stump_with ar w X y =
      Inr (case ?cs ! i of (feature, threshold, compare) \<Rightarrow>
             (Some feature, Some threshold, Some compare))"
    by (simp add: i(2) selected_def split: prod.splits)
  with i(1,3,4) show ?thesis
    by blast
qed

lemma X_tie_shape: "ncols X_tie = 2" "length (rows X_tie) = 3"
  by (simp_all add: X_tie_def)

lemma X_tie_candidates:
  "candidates arange X_tie =
     [(0, 0.005, ''>''), (0, 0.005, ''<''), (0, 0.015, ''>''), (0, 0.015, ''<''),
      (0, 0.025, ''>''), (0, 0.025, ''<''), (1, 0.505, ''>''), (1, 0.505, ''<''),
      (1, 0.515, ''>''), (1, 0.515, ''<''), (1, 0.525, ''>''), (1, 0.525, ''<'')]"
  by (simp add: candidates_def sweep_def X_tie_def column_def thresholds_with_def np_max_def
      np_min_def arange_hundredth upt_0_2)

lemma X_tie_errors:
  "map (spec_weighted_error [1 / 2, 1 / 4, 1 / 4] X_tie [1, - 1, - 1]) (candidates arange X_tie) =
     [1, 0, 1, 0, 3 / 4, 1 / 4, 1, 0, 1, 0, 3 / 4, 1 / 4]"
  by (simp add: X_tie_candidates) (simp add: spec_weighted_error_def spec_evaluator_def X_tie_def)

lemma X_pair_candidates: "candidates arange X_pair = [(0, 0.005, ''>''), (0, 0.005, ''<'')]"
  by (simp add: candidates_def sweep_def X_pair_shape X_pair_column thresholds_with_def np_max_def
      np_min_def arange_def)

lemma X_pair_errors:
  "map (spec_weighted_error [1 / 2, 1 / 2] X_pair [1, 1]) (candidates arange X_pair) = [1 / 2, 1 / 2]"
  by (simp add: X_pair_candidates) (simp add: spec_weighted_error_def spec_evaluator_def X_pair_def)

lemma X_close_shape: "ncols X_close = 1" "length (rows X_close) = 3"
  by (simp_all add: X_close_def)

lemma X_close_candidates:
  "candidates arange_wide X_close = [(0, 1.005, ''>''), (0, 1.005, ''<''), (0, 1.015, ''>''), (0, 1.015, ''<''), (0, 1.025, ''>''), (0, 1.025, ''<''), (0, 1.035, ''>''), (0, 1.035, ''<''), (0, 1.045, ''>''), (0, 1.045, ''<''), (0, 1.055, ''>''), (0, 1.055, ''<''), (0, 1.065, ''>''), (0, 1.065, ''<''), (0, 1.075, ''>''), (0, 1.075, ''<''), (0, 1.085, ''>''), (0, 1.085, ''<''), (0, 1.095, ''>''), (0, 1.095, ''<''), (0, 1.105, ''>''), (0, 1.105, ''<''), (0, 1.115, ''>''), (0, 1.115, ''<''), (0, 1.125, ''>''), (0, 1.125, ''<''), (0, 1.135, ''>''), (0, 1.135, ''<''), (0, 1.145, ''>''), (0, 1.145, ''<''), (0, 1.155, ''>''), (0, 1.155, ''<''), (0, 1.165, ''>''), (0, 1.165, ''<''), (0, 1.175, ''>''), (0, 1.175, ''<''), (0, 1.185, ''>''), (0, 1.185, ''<''), (0, 1.195, ''>''), (0, 1.195, ''<''), (0, 1.205, ''>''), (0, 1.205, ''<''), (0, 1.215, ''>''), (0, 1.215, ''<''), (0, 1.225, ''>''), (0, 1.225, ''<''), (0, 1.235, ''>''), (0, 1.235, ''<''), (0, 1.245, ''>''), (0, 1.245, ''<'')]"
  by (simp add: candidates_def sweep_def X_close_def column_def thresholds_with_def np_max_def
      np_min_def arange_wide_def arange_hundredth)

lemma X_close_errors:
  "map (spec_weighted_error [1 / 3, 1 / 3, 1 / 3] X_close [1, 1, - 1]) (candidates arange_wide X_close) =
     [2 / 3, 1 / 3, 2 / 3, 1 / 3, 2 / 3, 1 / 3, 2 / 3, 1 / 3, 2 / 3, 1 / 3, 2 / 3, 1 / 3, 2 / 3, 1 / 3, 2 / 3, 1 / 3, 2 / 3, 1 / 3, 2 / 3, 1 / 3, 2 / 3, 1 / 3, 2 / 3, 1 / 3, 2 / 3, 1 / 3, 2 / 3, 1 / 3, 2 / 3, 1 / 3, 2 / 3, 1 / 3, 2 / 3, 1 / 3, 2 / 3, 1 / 3, 2 / 3, 1 / 3, 2 / 3, 1 / 3, 2 / 3, 1 / 3, 2 / 3, 1 / 3, 2 / 3, 1 / 3, 2 / 3, 1 / 3, 1, 0]"
  by (simp add: X_close_candidates) (simp add: spec_weighted_error_def spec_evaluator_def X_close_def)

text \<open>
  Three runs. On \<open>X_tie\<close> four triples have error 0 and the one returned is the first of
  them, which is the second triple of the grid. On the pair with labels \<open>1, 1\<close> both triples
  have error \<open>1/2\<close> and the one with \<open>">"\<close> is returned. On \<open>X_close\<close> with the sweep of 25
  thresholds the only triple of error 0 is the last one of the grid.
\<close>

theorem best_stump_first_minimum_witness:
  "map (spec_weighted_error [1 / 2, 1 / 4, 1 / 4] X_tie [1, - 1, - 1]) (candidates arange X_tie) =
     [1, 0, 1, 0, 3 / 4, 1 / 4, 1, 0, 1, 0, 3 / 4, 1 / 4]
   \<and> best_decision_stump_with arange [1 / 2, 1 / 4, 1 / 4] X_tie [1, - 1, - 1] =
       Inr (Some 0, Some 0.005, Some ''<'')
   \<and> map (spec_weighted_error [1 / 2, 1 / 2] X_pair [1, 1]) (candidates arange X_pair) =
       [1 / 2, 1 / 2]
   \<and> best_decision_stump_with arange [1 / 2, 1 / 2] X_pair [1, 1] =
       Inr (Some 0, Some 0.005, Some ''>'')
   \<and> best_decision_stump_with arange_wide [1 / 3, 1 / 3, 1 / 3] X_close [1, 1, - 1] =
       Inr (Some 0, Some 1.245, Some ''<'')"
proof -
  let ?cs = "candidates arange X_tie"
  let ?err = "spec_weighted_error [1 / 2, 1 / 4, 1 / 4] X_tie [1, - 1, - 1]"
  let ?E = "[1, 0, 1, 0, 3 / 4, 1 / 4, 1, 0, 1, 0, 3 / 4, 1 / 4 :: real]"
  have len: "length ?cs = 12"
    by (simp add: X_tie_candidates)
  have E: "?err (?cs ! j) = ?E ! j" if "j < 12" for j
    using that nth_map [of j ?cs ?err] by (simp only: len X_tie_errors)
  have "length [1 / 2, 1 / 4, 1 / 4 :: real] = length (rows X_tie)"
    "length [1, - 1, - 1 :: real] = length (rows X_tie)"
    "\<forall>x\<in>set [1 / 2, 1 / 4, 1 / 4 :: real]. 0 \<le> x" "sum_list [1 / 2, 1 / 4, 1 / 4 :: real] = 1"
    "2 \<le> length (rows X_tie)" "?cs \<noteq> []"
    by (simp_all add: X_tie_shape X_tie_candidates)
  from best_stump_first_minimum [OF this] obtain i where
    i: "i < length ?cs"
    and res: "best_decision_stump_with arange [1 / 2, 1 / 4, 1 / 4] X_tie [1, - 1, - 1] =
             Inr (case ?cs ! i of (feature, threshold, compare) \<Rightarrow>
                    (Some feature, Some threshold, Some compare))"
    and least: "\<forall>c\<in>set ?cs. ?err (?cs ! i) \<le> ?err c"
    and first: "\<forall>c\<in>set (take i ?cs). ?err (?cs ! i) < ?err c"
    by blast
  from i have i12: "i < 12"
    by (simp only: len)
  have "?cs ! 1 \<in> set ?cs"
    by (simp add: len)
  with least have "?err (?cs ! i) \<le> ?err (?cs ! 1)"
    by blast
  then have m: "?E ! i \<le> ?E ! 1"
    using E [OF i12] E [of 1] by simp
  have s: "?E ! i < ?E ! 1" if "1 < i"
  proof -
    from that i have "?cs ! 1 \<in> set (take i ?cs)"
      unfolding in_set_conv_nth by (intro exI [of _ 1]) simp
    with first have "?err (?cs ! i) < ?err (?cs ! 1)"
      by blast
    then show ?thesis
      using E [OF i12] E [of 1] by simp
  qed
  from i12 consider "i = 0" | "i = 1" | "i = 2" | "i = 3" | "i = 4" | "i = 5" | "i = 6"
    | "i = 7" | "i = 8" | "i = 9" | "i = 10" | "i = 11"
    by atomize_elim arith
  then have "i = 1"
    using m s by cases simp_all
  with res have tie: "best_decision_stump_with arange [1 / 2, 1 / 4, 1 / 4] X_tie [1, - 1, - 1] =
       Inr (Some 0, Some 0.005, Some ''<'')"
    by (simp add: X_tie_candidates)
  let ?ps = "candidates arange X_pair"
  let ?perr = "spec_weighted_error [1 / 2, 1 / 2] X_pair [1, 1]"
  have plen: "length ?ps = 2"
    by (simp add: X_pair_candidates)
  have P: "?perr (?ps ! j) = [1 / 2, 1 / 2 :: real] ! j" if "j < 2" for j
    using that nth_map [of j ?ps ?perr] by (simp only: plen X_pair_errors)
  have "length [1 / 2, 1 / 2 :: real] = length (rows X_pair)"
    "length [1, 1 :: real] = length (rows X_pair)"
    "\<forall>x\<in>set [1 / 2, 1 / 2 :: real]. 0 \<le> x" "sum_list [1 / 2, 1 / 2 :: real] = 1"
    "2 \<le> length (rows X_pair)" "?ps \<noteq> []"
    by (simp_all add: X_pair_shape X_pair_candidates)
  from best_stump_first_minimum [OF this] obtain k where
    k: "k < length ?ps"
    and pres: "best_decision_stump_with arange [1 / 2, 1 / 2] X_pair [1, 1] =
             Inr (case ?ps ! k of (feature, threshold, compare) \<Rightarrow>
                    (Some feature, Some threshold, Some compare))"
    and pfirst: "\<forall>c\<in>set (take k ?ps). ?perr (?ps ! k) < ?perr c"
    by blast
  from k have k2: "k < 2"
    by (simp only: plen)
  have "k \<noteq> 1"
  proof
    assume k1: "k = 1"
    then have "?ps ! 0 \<in> set (take k ?ps)"
      by (simp add: X_pair_candidates)
    with pfirst have "?perr (?ps ! k) < ?perr (?ps ! 0)"
      by blast
    then show False
      using P [of 0] P [of 1] k1 by simp
  qed
  with k2 have "k = 0"
    by linarith
  with pres have pair: "best_decision_stump_with arange [1 / 2, 1 / 2] X_pair [1, 1] =
       Inr (Some 0, Some 0.005, Some ''>'')"
    by (simp add: X_pair_candidates)
  let ?ws = "candidates arange_wide X_close"
  let ?werr = "spec_weighted_error [1 / 3, 1 / 3, 1 / 3] X_close [1, 1, - 1]"
  let ?W = "[2 / 3, 1 / 3, 2 / 3, 1 / 3, 2 / 3, 1 / 3, 2 / 3, 1 / 3, 2 / 3, 1 / 3, 2 / 3, 1 / 3, 2 / 3, 1 / 3, 2 / 3, 1 / 3, 2 / 3, 1 / 3, 2 / 3, 1 / 3, 2 / 3, 1 / 3, 2 / 3, 1 / 3, 2 / 3, 1 / 3, 2 / 3, 1 / 3, 2 / 3, 1 / 3, 2 / 3, 1 / 3, 2 / 3, 1 / 3, 2 / 3, 1 / 3, 2 / 3, 1 / 3, 2 / 3, 1 / 3, 2 / 3, 1 / 3, 2 / 3, 1 / 3, 2 / 3, 1 / 3, 2 / 3, 1 / 3, 1, 0 :: real]"
  have wlen: "length ?ws = 50"
    by (simp add: X_close_candidates)
  have W: "?werr (?ws ! j) = ?W ! j" if "j < 50" for j
    using that nth_map [of j ?ws ?werr] by (simp only: wlen X_close_errors)
  have "length [1 / 3, 1 / 3, 1 / 3 :: real] = length (rows X_close)"
    "length [1, 1, - 1 :: real] = length (rows X_close)"
    "\<forall>x\<in>set [1 / 3, 1 / 3, 1 / 3 :: real]. 0 \<le> x" "sum_list [1 / 3, 1 / 3, 1 / 3 :: real] = 1"
    "2 \<le> length (rows X_close)" "?ws \<noteq> []"
    by (simp_all add: X_close_shape X_close_candidates)
  from best_stump_first_minimum [OF this] obtain j where
    j: "j < length ?ws"
    and wres: "best_decision_stump_with arange_wide [1 / 3, 1 / 3, 1 / 3] X_close [1, 1, - 1] =
             Inr (case ?ws ! j of (feature, threshold, compare) \<Rightarrow>
                    (Some feature, Some threshold, Some compare))"
    and wleast: "\<forall>c\<in>set ?ws. ?werr (?ws ! j) \<le> ?werr c"
    by blast
  from j have j50: "j < 50"
    by (simp only: wlen)
  have "?ws ! 49 \<in> set ?ws"
    by (simp add: wlen)
  with wleast have "?werr (?ws ! j) \<le> ?werr (?ws ! 49)"
    by blast
  then have wm: "?W ! j \<le> 0"
    using W [OF j50] W [of 49] by simp
  from j50 consider "j = 0" | "j = 1" | "j = 2" | "j = 3" | "j = 4" | "j = 5" | "j = 6" | "j = 7" | "j = 8" | "j = 9" | "j = 10" | "j = 11" | "j = 12" | "j = 13" | "j = 14" | "j = 15" | "j = 16" | "j = 17" | "j = 18" | "j = 19" | "j = 20" | "j = 21" | "j = 22" | "j = 23" | "j = 24" | "j = 25" | "j = 26" | "j = 27" | "j = 28" | "j = 29" | "j = 30" | "j = 31" | "j = 32" | "j = 33" | "j = 34" | "j = 35" | "j = 36" | "j = 37" | "j = 38" | "j = 39" | "j = 40" | "j = 41" | "j = 42" | "j = 43" | "j = 44" | "j = 45" | "j = 46" | "j = 47" | "j = 48" | "j = 49"
    by atomize_elim arith
  then have "j = 49"
    using wm by cases simp_all
  with wres have wide: "best_decision_stump_with arange_wide [1 / 3, 1 / 3, 1 / 3] X_close [1, 1, - 1] =
       Inr (Some 0, Some 1.245, Some ''<'')"
    by (simp add: X_close_candidates)
  from tie pair wide show ?thesis
    by (simp only: X_tie_errors X_pair_errors simp_thms)
qed

end
